theory Spec2Isabelle
  imports Complex_Main
begin

section \<open>Double-precision values\<close>

text \<open>
  The source computes with C++ \<open>double\<close>. A finite value is modelled by the real number it
  stands for, and an operation on finite values by the exact operation on the reals, with
  the overflow of IEEE arithmetic: a result whose magnitude reaches \<open>2^1024 - 2^970\<close> (the
  bound from which rounding to nearest goes to infinity) is not finite. Rounding within
  the range of the finite values is not modelled. The infinities and the NaNs are the
  single value \<open>NonFinite\<close>: sums and products with a non-finite operand are non-finite
  again (\<open>inf * 0\<close> and \<open>inf - inf\<close> are NaN, every other case is an infinity or a NaN).
\<close>

datatype dbl = Finite real | NonFinite

definition overflow_threshold :: real where
  "overflow_threshold = 2 ^ 1024 - 2 ^ 970"

text \<open>The double for the exact result of an operation on finite values.\<close>

definition dbl_of :: "real \<Rightarrow> dbl" where
  "dbl_of x = (if \<bar>x\<bar> < overflow_threshold then Finite x else NonFinite)"

fun dadd :: "dbl \<Rightarrow> dbl \<Rightarrow> dbl" where
  "dadd (Finite x) (Finite y) = dbl_of (x + y)"
| "dadd _ _ = NonFinite"

fun dsub :: "dbl \<Rightarrow> dbl \<Rightarrow> dbl" where
  "dsub (Finite x) (Finite y) = dbl_of (x - y)"
| "dsub _ _ = NonFinite"

fun dmul :: "dbl \<Rightarrow> dbl \<Rightarrow> dbl" where
  "dmul (Finite x) (Finite y) = dbl_of (x * y)"
| "dmul _ _ = NonFinite"

text \<open>
  \<open>x / y\<close>, where the divisor \<open>y\<close> is a product of finite values, given by its exact value.
  A divisor zero gives an infinity or a NaN. A divisor that has overflowed is an
  infinity, and a finite value divided by it is zero. Otherwise the quotient is the exact
  one, if it does not overflow.
\<close>

fun ddiv :: "dbl \<Rightarrow> real \<Rightarrow> dbl" where
  "ddiv (Finite x) y =
     (if y = 0 then NonFinite
      else if overflow_threshold \<le> \<bar>y\<bar> then Finite 0
      else dbl_of (x / y))"
| "ddiv NonFinite y = NonFinite"

section \<open>Vectors and matrices of the linear-algebra collaborator\<close>

text \<open>
  The classes \<open>utl::vector\<close> and \<open>utl::matrix\<close> are defined outside the files verified here; the spec asks
  of the linear-algebra collaborator "matrix/vector types supporting element-wise
  accumulation". Their operations are modelled entry by entry.
\<close>

type_synonym Vector = "dbl list"

text \<open>Modelled from the spec: \<open>v *= c\<close> multiplies every entry by \<open>c\<close>.\<close>

definition vscale :: "Vector \<Rightarrow> dbl \<Rightarrow> Vector" where
  "vscale v c = map (\<lambda>x. dmul x c) v"

text \<open>
  Modelled from the spec: \<open>y.add(x,alfa)\<close> is the element-wise accumulation
  \<open>y[i] += alfa*x[i]\<close> over the entries both vectors have; further entries of \<open>y\<close> stay.
\<close>

definition vadd :: "Vector \<Rightarrow> Vector \<Rightarrow> dbl \<Rightarrow> Vector" where
  "vadd y x alfa = map2 (\<lambda>yi xi. dadd yi (dmul alfa xi)) y x @ drop (length x) y"

text \<open>Modelled from the spec: \<open>v.fill(c)\<close> sets every entry to \<open>c\<close>.\<close>

definition vfill :: "Vector \<Rightarrow> dbl \<Rightarrow> Vector" where
  "vfill v c = map (\<lambda>_. c) v"

text \<open>
  \<open>std::copy(src.begin(),src.end(),dst.begin())\<close> overwrites the first \<open>src.size()\<close>
  entries of \<open>dst\<close>; writing past the end of \<open>dst\<close> is undefined behaviour (\<open>None\<close>).
\<close>

definition std_copy :: "'a list \<Rightarrow> 'a list \<Rightarrow> 'a list option" where
  "std_copy src dst =
     (if length src \<le> length dst then Some (src @ drop (length src) dst) else None)"

text \<open>
  A dense matrix (\<open>utl::matrix\<close>): its dimensions and its entries, stored column by column.
\<close>

record Matrix =
  nrow :: nat
  ncol :: nat
  elem :: Vector

text \<open>Modelled from the spec: \<open>N.multiply(c)\<close> scales every entry by \<open>c\<close>.\<close>

definition mat_multiply :: "Matrix \<Rightarrow> dbl \<Rightarrow> Matrix" where
  "mat_multiply N c = N\<lparr>elem := vscale (elem N) c\<rparr>"

text \<open>
  Modelled from the spec: \<open>N.add(K,alfa)\<close> accumulates \<open>alfa*K\<close> entry by entry into the
  stored entries of \<open>N\<close>.
\<close>

definition mat_add :: "Matrix \<Rightarrow> Matrix \<Rightarrow> dbl \<Rightarrow> Matrix" where
  "mat_add N K alfa = N\<lparr>elem := vadd (elem N) (elem K) alfa\<rparr>"

section \<open>NewmarkMats: element matrices of a dynamic problem\<close>

record NewmarkMats =
  A :: "Matrix list"
  alpha1 :: real
  alpha2 :: real
  alpha_m :: real
  alpha_f :: real
  beta :: real
  gamma :: real
  slvDisp :: bool
  isPredictor :: bool
  h :: real

text \<open>
  The constructor \<open>NewmarkMats(a1,a2,b,c,generalizedAlpha)\<close>. The element matrices are
  set up afterwards by the integrand, so the constructed object has none.
\<close>

definition NewmarkMats_ctor :: "real \<Rightarrow> real \<Rightarrow> real \<Rightarrow> real \<Rightarrow> bool \<Rightarrow> NewmarkMats" where
  "NewmarkMats_ctor a1 a2 b c generalizedAlpha =
     (if generalizedAlpha then
        (let am = \<bar>b\<bar>; af = c; alpha = af - am in
         \<lparr>A = [], alpha1 = a1, alpha2 = a2, alpha_m = am, alpha_f = af,
          beta = 0.25 * (1 - alpha) * (1 - alpha), gamma = 0.5 - alpha,
          slvDisp = (b < 0), isPredictor = True, h = 0\<rparr>)
      else
        \<lparr>A = [], alpha1 = a1, alpha2 = a2, alpha_m = 1, alpha_f = 1,
         beta = \<bar>b\<bar>, gamma = c,
         slvDisp = (b < 0), isPredictor = True, h = 0\<rparr>)"

text \<open>
  \<open>getNewtonMatrix\<close> builds the Newton matrix in \<open>A[0]\<close> from the mass matrix \<open>A[1]\<close> and
  the stiffness matrix \<open>A[2]\<close> and returns \<open>A.front()\<close>; the object is returned with it,
  since \<open>A[0]\<close> is overwritten. Reading \<open>A[1]\<close> or \<open>A[2]\<close> of a shorter \<open>A\<close> is undefined
  behaviour (\<open>None\<close>). The two scale factors are computed operation by operation, as
  \<open>alpha_m + ((alpha_f*alpha1)*gamma)*h\<close> and \<open>(alpha_f*(alpha2*gamma + beta*h))*h\<close>.
\<close>

definition getNewtonMatrix :: "NewmarkMats \<Rightarrow> (Matrix \<times> NewmarkMats) option" where
  "getNewtonMatrix nm =
     (if length (A nm) < 3 then None
      else
        let N1 = A nm ! 1;
            N2 = mat_multiply N1
                   (dadd (Finite (alpha_m nm))
                      (dmul (dmul (dmul (Finite (alpha_f nm)) (Finite (alpha1 nm)))
                                  (Finite (gamma nm)))
                            (Finite (h nm))));
            N3 = mat_add N2 (A nm ! 2)
                   (dmul (dmul (Finite (alpha_f nm))
                               (dadd (dmul (Finite (alpha2 nm)) (Finite (gamma nm)))
                                     (dmul (Finite (beta nm)) (Finite (h nm)))))
                         (Finite (h nm)));
            N4 = (if slvDisp nm
                  then mat_multiply N3 (ddiv (Finite 1) (beta nm * h nm * h nm))
                  else N3)
        in Some (N4, nm\<lparr>A := (A nm)[0 := N4]\<rparr>))"

text \<open>
  The claimed Newton matrix, in the words of the specification: the matrix \<open>s * M\<close>, the
  sum \<open>M + K\<close>, both entry by entry, and
  \<open>(alpha_m + alpha_f*alpha1*gamma*h) * M + alpha_f*(alpha2*gamma + beta*h)*h * K\<close>,
  multiplied by \<open>1/(beta*h*h)\<close> for the displacement-based variant.
\<close>

definition mat_smult :: "dbl \<Rightarrow> Matrix \<Rightarrow> Matrix" where
  "mat_smult s M = M\<lparr>elem := map (\<lambda>x. dmul s x) (elem M)\<rparr>"

definition mat_plus :: "Matrix \<Rightarrow> Matrix \<Rightarrow> Matrix" where
  "mat_plus M K = M\<lparr>elem := map2 dadd (elem M) (elem K)\<rparr>"

definition NewtonMatrix_spec :: "NewmarkMats \<Rightarrow> Matrix" where
  "NewtonMatrix_spec nm =
     (let M = A nm ! 1; K = A nm ! 2;
          N = mat_plus
                (mat_smult
                   (dadd (Finite (alpha_m nm))
                      (dmul (dmul (dmul (Finite (alpha_f nm)) (Finite (alpha1 nm)))
                                  (Finite (gamma nm)))
                            (Finite (h nm)))) M)
                (mat_smult
                   (dmul (dmul (Finite (alpha_f nm))
                               (dadd (dmul (Finite (alpha2 nm)) (Finite (gamma nm)))
                                     (dmul (Finite (beta nm)) (Finite (h nm)))))
                         (Finite (h nm))) K)
      in if slvDisp nm then mat_smult (ddiv (Finite 1) (beta nm * h nm * h nm)) N else N)"

definition same_dims :: "Matrix \<Rightarrow> Matrix \<Rightarrow> bool" where
  "same_dims M K \<longleftrightarrow>
     nrow M = nrow K \<and> ncol M = ncol K \<and> length (elem M) = length (elem K)"

text \<open>
  The displacement-based Newmark matrices with \<open>beta = 1/4\<close>, \<open>gamma = 1/2\<close>, step size
  \<open>h = 2\<close>, mass \<open>(3)\<close> and stiffness \<open>(5)\<close>: the Newton matrix is \<open>(3 + 5) * 1 = 8\<close>.
\<close>

definition nm_example :: NewmarkMats where
  "nm_example = (NewmarkMats_ctor 0 0 (- 0.25) 0.5 False)
     \<lparr>A := [\<lparr>nrow = 0, ncol = 0, elem = []\<rparr>,
            \<lparr>nrow = 1, ncol = 1, elem = [Finite 3]\<rparr>,
            \<lparr>nrow = 1, ncol = 1, elem = [Finite 5]\<rparr>], h := 2\<rparr>"

section \<open>NewmarkNLSIM: the Newmark solution driver\<close>

text \<open>
  The time stepping parameters. The class \<open>TimeStep\<close> is defined in another file: the
  driver reads \<open>param.time.dt\<close> and calls \<open>param.increment()\<close>, which is passed to
  \<open>advanceStep\<close> below as the function \<open>increment\<close>.
\<close>

record TimeStep =
  dt :: real
  step :: int

text \<open>
  The simulator \<open>model\<close> (\<open>SIMbase\<close>, defined in another file), as far as \<open>correctStep\<close>
  uses it: the inertia vector handed out by \<open>getRHSvector(1,true)\<close> (a pointer, perhaps
  null) and the status \<open>updateConfiguration\<close> returns for a displacement vector.
\<close>

record SIMbase =
  getRHSvector :: "Vector option"
  updateConfiguration :: "Vector \<Rightarrow> bool"

text \<open>
  The data members of the driver: the solution history \<open>solution\<close> (displacements first,
  then velocity and acceleration as the last two vectors), the incremental displacement,
  the predicted velocity and acceleration, the solution increment \<open>linsol\<close> of the linear
  solver, the saved inertia vector and the Newmark parameters.
\<close>

record NewmarkNLSIM =
  solution :: "Vector list"
  incDis :: Vector
  predVel :: Vector
  predAcc :: Vector
  linsol :: Vector
  Finert :: "Vector option"
  beta :: real
  gamma :: real
  predictor :: char

text \<open>
  The constructor body, applied to the object the base class \<open>NewmarkSIM\<close> has set up.
\<close>

definition NewmarkNLSIM_ctor :: "NewmarkNLSIM \<Rightarrow> NewmarkNLSIM" where
  "NewmarkNLSIM_ctor base =
     base\<lparr>Finert := None, beta := 0.3025, gamma := 0.6, predictor := CHR ''d''\<rparr>"

text \<open>
  \<open>int n = solution.size()-3\<close>: the subtraction is done on the 64-bit unsigned \<open>size_t\<close>
  and wraps, the conversion to the 32-bit \<open>int\<close> keeps the low 32 bits as a signed value.
\<close>

definition size_minus_3 :: "nat \<Rightarrow> int" where
  "size_minus_3 sz =
     (let u = (int sz - 3) mod 2 ^ 64 in (u + 2 ^ 31) mod 2 ^ 32 - 2 ^ 31)"

text \<open>
  The loop of \<open>advanceStep\<close>, from \<open>n\<close> down to 1: \<open>solution[n-1]\<close> is copied into
  \<open>solution[n]\<close>. An index beyond the history is undefined behaviour (\<open>None\<close>).
\<close>

fun shift_history :: "nat \<Rightarrow> Vector list \<Rightarrow> Vector list option" where
  "shift_history 0 sol = Some sol"
| "shift_history (Suc m) sol =
     (if Suc m < length sol then
        (case std_copy (sol ! m) (sol ! Suc m) of
           None \<Rightarrow> None
         | Some v \<Rightarrow> shift_history m (sol[Suc m := v]))
      else None)"

definition advanceStep ::
  "(TimeStep \<Rightarrow> bool \<times> TimeStep) \<Rightarrow> NewmarkNLSIM \<Rightarrow> TimeStep \<Rightarrow> bool
     \<Rightarrow> (bool \<times> NewmarkNLSIM \<times> TimeStep) option" where
  "advanceStep increment s param updateTime =
     (case shift_history (nat (size_minus_3 (length (solution s)))) (solution s) of
        None \<Rightarrow> None
      | Some sol \<Rightarrow>
          if updateTime
          then Some (fst (increment param), s\<lparr>solution := sol\<rparr>, snd (increment param))
          else Some (True, s\<lparr>solution := sol\<rparr>, param))"

definition predictStep :: "NewmarkNLSIM \<Rightarrow> TimeStep \<Rightarrow> bool \<times> NewmarkNLSIM" where
  "predictStep s param =
     (if length (solution s) < 3 then (False, s)
      else
        let iA = length (solution s) - 1;
            iV = length (solution s) - 2;
            pV = vadd (vscale (solution s ! iV)
                          (dsub (ddiv (Finite (gamma s)) (beta s)) (Finite 1)))
                      (solution s ! iA)
                      (dmul (dsub (ddiv (Finite (0.5 * gamma s)) (beta s)) (Finite 1))
                            (Finite (dt param)));
            pA = vadd (vscale (solution s ! iA)
                          (dsub (ddiv (Finite 0.5) (beta s)) (Finite 1)))
                      (solution s ! iV)
                      (ddiv (Finite 1) (beta s * dt param))
        in (True, s\<lparr>solution := (solution s)[iV := pV, iA := pA],
                     incDis := vfill (incDis s) (Finite 0),
                     predVel := vscale pV (Finite (- 1)),
                     predAcc := vscale pA (Finite (- 1))\<rparr>))"

definition correctStep ::
  "SIMbase \<Rightarrow> NewmarkNLSIM \<Rightarrow> TimeStep \<Rightarrow> bool \<Rightarrow> bool \<times> NewmarkNLSIM" where
  "correctStep model s param converged =
     (if length (solution s) < 3 then (False, s)
      else
        let iD = 0;
            iA = length (solution s) - 1;
            iV = length (solution s) - 2;
            inc = vadd (incDis s) (linsol s) (Finite 1);
            sol1 = (solution s)[iD := vadd (solution s ! iD) (linsol s) (Finite 1)];
            sol2 = sol1[iV := vadd (predVel s) inc
                                (ddiv (Finite (gamma s)) (beta s * dt param))];
            sol3 = sol2[iA := vadd (predAcc s) inc
                                (ddiv (Finite 1) (beta s * dt param * dt param))];
            s' = s\<lparr>solution := sol3, incDis := inc,
                   Finert := (if converged then getRHSvector model else Finert s)\<rparr>
        in (updateConfiguration model (sol3 ! iD), s'))"

text \<open>
  The predicted velocity and acceleration of one degree of freedom, in the words of the
  specification: \<open>(gamma/beta - 1)*v + (0.5*gamma/beta - 1)*dt*a\<close> and
  \<open>(0.5/beta - 1)*a + v/(beta*dt)\<close>.
\<close>

definition predVel_spec :: "real \<Rightarrow> real \<Rightarrow> real \<Rightarrow> dbl \<Rightarrow> dbl \<Rightarrow> dbl" where
  "predVel_spec b g t v a =
     dadd (dmul (dsub (ddiv (Finite g) b) (Finite 1)) v)
          (dmul (dmul (dsub (ddiv (Finite (0.5 * g)) b) (Finite 1)) (Finite t)) a)"

definition predAcc_spec :: "real \<Rightarrow> real \<Rightarrow> dbl \<Rightarrow> dbl \<Rightarrow> dbl" where
  "predAcc_spec b t v a =
     dadd (dmul (dsub (ddiv (Finite 0.5) b) (Finite 1)) a) (ddiv v (b * t))"

text \<open>
  The predicted acceleration with the quotient formed as the source forms it, the
  velocity times the factor \<open>1.0/(beta*dt)\<close>: \<open>(0.5/beta - 1)*a + v*(1.0/(beta*dt))\<close>.
\<close>

definition predAcc_factor :: "real \<Rightarrow> real \<Rightarrow> dbl \<Rightarrow> dbl \<Rightarrow> dbl" where
  "predAcc_factor b t v a =
     dadd (dmul (dsub (ddiv (Finite 0.5) b) (Finite 1)) a)
          (dmul v (ddiv (Finite 1) (b * t)))"

text \<open>
  What the specification says of the history after \<open>advanceStep\<close>: entry \<open>n\<close> holds the
  former entry \<open>n-1\<close> for \<open>1 \<le> n \<le> size-3\<close>, every other entry is as before.
\<close>

definition shifted :: "'a list \<Rightarrow> 'a list" where
  "shifted sol =
     map (\<lambda>n. if 1 \<le> n \<and> n + 3 \<le> length sol then sol ! (n - 1) else sol ! n)
         [0..<length sol]"

text \<open>
  A driver as the constructor leaves it, with a history of one displacement, the velocity
  and the acceleration of a single degree of freedom, all zero.
\<close>

definition zero_driver :: NewmarkNLSIM where
  "zero_driver = NewmarkNLSIM_ctor
     \<lparr>solution = [[Finite 0], [Finite 0], [Finite 0]],
      incDis = [Finite 0], predVel = [Finite 0], predAcc = [Finite 0],
      linsol = [Finite 0], Finert = None, beta = 0, gamma = 0, predictor = CHR ''d''\<rparr>"

text \<open>The velocity and the acceleration: the last two vectors of the solution history.\<close>

definition velocity :: "NewmarkNLSIM \<Rightarrow> Vector" where
  "velocity s = solution s ! (length (solution s) - 2)"

definition acceleration :: "NewmarkNLSIM \<Rightarrow> Vector" where
  "acceleration s = solution s ! (length (solution s) - 1)"

text \<open>
  A driver with three displacement vectors, a velocity and an acceleration, and a time
  step increment that advances the step counter and reports false.
\<close>

definition history5 :: NewmarkNLSIM where
  "history5 = zero_driver
     \<lparr>solution := [[Finite 1], [Finite 2], [Finite 3], [Finite 4], [Finite 5]]\<rparr>"

definition next_step :: "TimeStep \<Rightarrow> bool \<times> TimeStep" where
  "next_step p = (False, p\<lparr>step := step p + 1\<rparr>)"

section \<open>Recovery on unstructured LR B-spline patches (ASMu3D)\<close>

text \<open>
  The recovery code adds and multiplies only; its numbers are modelled as reals (the
  collaborators return finite values, sums and products are taken exact). Matrices are
  read and written entry by entry with 1-based indices \<open>(r,c)\<close>: a matrix is its
  dimensions and its entry function. The index operators of the source are unchecked.
\<close>

type_synonym RealArray = "real list"

record RMatrix =
  rows :: nat
  cols :: nat
  entry :: "nat \<times> nat \<Rightarrow> real"

subsection \<open>The geometry collaborator\<close>

text \<open>
  An element of the LR mesh: its id and the ids of the basis functions with support on
  it (\<open>support()\<close>).
\<close>

record Element =
  el_id :: nat
  el_support :: "nat list"

text \<open>
  A basis function: its id, its Greville parameter per direction, the elements it has
  support on (\<open>supportedElementBegin()\<close> to \<open>supportedElementEnd()\<close>) and its extended
  support, the union of the supports of all functions that overlap it.
\<close>

record Basisfunction =
  getId :: nat
  getGrevilleParameter :: "nat \<Rightarrow> real"
  supportedElements :: "Element list"
  getExtendedSupport :: "Element list"

text \<open>The result of a spline evaluation: basis values and first derivatives per function.\<close>

record BasisDerivs =
  basisValues :: "real list"
  basisDerivs_u :: "real list"
  basisDerivs_v :: "real list"
  basisDerivs_w :: "real list"

record LRSplineVolume =
  order :: "nat \<Rightarrow> int"
  rational :: bool
  getAllBasisfunctions :: "Basisfunction list"
  getAllElements :: "Element list"
  getElement :: "int \<Rightarrow> Element"
  getElementContaining :: "real \<Rightarrow> real \<Rightarrow> real \<Rightarrow> int"
  point :: "real \<Rightarrow> real \<Rightarrow> real \<Rightarrow> real \<times> real \<times> real"
  computeBasis :: "real \<Rightarrow> real \<Rightarrow> real \<Rightarrow> int \<Rightarrow> BasisDerivs"

text \<open>
  Modelled from the spec: \<open>nBasisFunctions()\<close> belongs to the geometry library; the spec
  counts one basis function per control point, and the functions are the ones
  \<open>getAllBasisfunctions()\<close> enumerates.
\<close>

definition nBasisFunctions :: "LRSplineVolume \<Rightarrow> nat" where
  "nBasisFunctions lr = length (getAllBasisfunctions lr)"

text \<open>
  Modelled from the spec: \<open>SplineUtils::extractBasis\<close> is defined in another file; it
  extracts the basis values and the (nodes x 3) matrix of first derivatives.
\<close>

definition extractBasis :: "BasisDerivs \<Rightarrow> real list \<times> real list list" where
  "extractBasis spl =
     (basisValues spl,
      map (\<lambda>(du, dv, dw). [du, dv, dw])
          (zip (basisDerivs_u spl) (zip (basisDerivs_v spl) (basisDerivs_w spl))))"

subsection \<open>The other collaborators\<close>

text \<open>
  Gauss quadrature (\<open>getCoord\<close> and \<open>getWeight\<close> return a null pointer for a number of
  points they have no rule for), the Jacobian determinant \<open>utl::Jacobian\<close> of the
  coordinate mapping, and the two linear solvers: \<open>A.solve(B)\<close> of a dense matrix of the
  given size and of a sparse one, \<open>None\<close> when the solve fails (a singular system).
\<close>

record Collab =
  getCoord :: "int \<Rightarrow> real list option"
  getWeight :: "int \<Rightarrow> real list option"
  Jacobian :: "real list list \<Rightarrow> real list list \<Rightarrow> real"
  dense_solve :: "nat \<Rightarrow> (nat \<times> nat \<Rightarrow> real) \<Rightarrow> (nat \<times> nat \<Rightarrow> real)
                    \<Rightarrow> (nat \<times> nat \<Rightarrow> real) option"
  sparse_solve :: "nat \<Rightarrow> (nat \<times> nat \<Rightarrow> real) \<Rightarrow> (nat \<Rightarrow> real) \<Rightarrow> (nat \<Rightarrow> real) option"

record IntegrandBase =
  derivativeOrder :: int
  getNoFields :: nat

text \<open>
  The patch, as far as the recovery methods use it: the number of Gauss points, the
  element connectivity table \<open>MNPC\<close>, the number of nodes, and the methods implemented in
  other files. The spline object \<open>lrspline\<close> is passed separately: apart from
  \<open>getGrevilleParameters\<close>, the methods dereference it without a check.
\<close>

record ASMu3D =
  nGauss :: int
  MNPC :: "nat \<Rightarrow> nat \<Rightarrow> int"
  getNoNodes :: nat
  getGaussPointParameters :: "nat \<Rightarrow> int \<Rightarrow> int \<Rightarrow> real list \<Rightarrow> RealArray"
  evalSolution :: "IntegrandBase \<Rightarrow> RealArray \<times> RealArray \<times> RealArray \<Rightarrow> RMatrix option"
  getElementCoordinates :: "int \<Rightarrow> real list list option"
  getParametricVolume :: "int \<Rightarrow> real"

subsection \<open>Greville parameters\<close>

text \<open>
  \<open>getGrevilleParameters(prm,dir)\<close>: the status and the array \<open>prm\<close> afterwards.
\<close>

definition getGrevilleParameters ::
  "LRSplineVolume option \<Rightarrow> RealArray \<Rightarrow> int \<Rightarrow> bool \<times> RealArray" where
  "getGrevilleParameters lrspline prm dir =
     (case lrspline of
        None \<Rightarrow> (False, prm)
      | Some lr \<Rightarrow>
          if dir < 0 \<or> dir > 2 then (False, prm)
          else (True, map (\<lambda>b. getGrevilleParameter b (nat dir)) (getAllBasisfunctions lr)))"

subsection \<open>Tensor grids and monomials\<close>

definition expandTensorGrid ::
  "RealArray \<times> RealArray \<times> RealArray \<Rightarrow> RealArray \<times> RealArray \<times> RealArray" where
  "expandTensorGrid inp =
     (case inp of (in0, in1, in2) \<Rightarrow>
        (concat (map (\<lambda>z. concat (map (\<lambda>y. map (\<lambda>x. x) in0) in1)) in2),
         concat (map (\<lambda>z. concat (map (\<lambda>y. map (\<lambda>x. y) in0) in1)) in2),
         concat (map (\<lambda>z. concat (map (\<lambda>y. map (\<lambda>x. z) in0) in1)) in2)))"

text \<open>
  The index triples \<open>(i,j,k)\<close> of a Gauss point loop, \<open>i\<close> running fastest, each with the
  running point counter, which starts at \<open>ip0\<close>.
\<close>

definition gaussLoop :: "nat \<Rightarrow> int \<Rightarrow> int \<Rightarrow> int \<Rightarrow> (nat \<times> nat \<times> nat \<times> nat) list" where
  "gaussLoop ip0 ng1 ng2 ng3 =
     enumerate ip0
       (concat (map (\<lambda>k. concat (map (\<lambda>j. map (\<lambda>i. (i, j, k)) [0..<nat ng1]) [0..<nat ng2]))
                    [0..<nat ng3]))"

text \<open>
  \<open>evalMonomials\<close>: entry \<open>(i,j,k)\<close> starts as 1 and is multiplied \<open>i\<close> times by \<open>x\<close>,
  \<open>j\<close> times by \<open>y\<close> and \<open>k\<close> times by \<open>z\<close>.
\<close>

definition evalMonomials :: "int \<Rightarrow> int \<Rightarrow> int \<Rightarrow> real \<Rightarrow> real \<Rightarrow> real \<Rightarrow> real list" where
  "evalMonomials p1 p2 p3 x y z =
     concat (map (\<lambda>k. concat (map (\<lambda>j. map (\<lambda>i.
         ((\<lambda>v. v * z) ^^ k) (((\<lambda>v. v * y) ^^ j) (((\<lambda>v. v * x) ^^ i) 1)))
       [0..<nat p1]) [0..<nat p2])) [0..<nat p3])"

subsection \<open>Regular interpolation\<close>

text \<open>The projected field: a copy of the spline with new dimension and control points.\<close>

record Projected =
  spline :: LRSplineVolume
  dimension :: nat
  controlPoints :: "real list"

text \<open>
  Row \<open>i+1\<close> of the interpolation matrix: the basis values at sample point \<open>i\<close>, one per
  function supported on the element containing the point, in the column of that
  function.
\<close>

definition interpolationRow ::
  "LRSplineVolume \<Rightarrow> RealArray \<Rightarrow> RealArray \<Rightarrow> RealArray \<Rightarrow> nat
     \<Rightarrow> (nat \<times> nat \<Rightarrow> real) \<Rightarrow> (nat \<times> nat \<Rightarrow> real)" where
  "interpolationRow lr upar vpar wpar i Am =
     (let iel = getElementContaining lr (upar ! i) (vpar ! i) (wpar ! i);
          splineValues = computeBasis lr (upar ! i) (vpar ! i) (wpar ! i) iel
      in fold (\<lambda>(fid, val) M. M((i + 1, fid + 1) := val))
              (zip (el_support (getElement lr iel)) (basisValues splineValues)) Am)"

definition interpolationMatrix ::
  "LRSplineVolume \<Rightarrow> RealArray \<Rightarrow> RealArray \<Rightarrow> RealArray \<Rightarrow> (nat \<times> nat \<Rightarrow> real)" where
  "interpolationMatrix lr upar vpar wpar =
     fold (interpolationRow lr upar vpar wpar) [0..<nBasisFunctions lr] (\<lambda>_. 0)"

text \<open>
  The right-hand side vector \<open>B\<close> (1-based): the transposed sample matrix, one block of
  \<open>cols\<close> values per field.
\<close>

definition interpolationRHS :: "RMatrix \<Rightarrow> nat \<Rightarrow> real" where
  "interpolationRHS points idx =
     entry points ((idx - 1) div cols points + 1, (idx - 1) mod cols points + 1)"

definition regularInterpolation ::
  "Collab \<Rightarrow> LRSplineVolume \<Rightarrow> RealArray \<Rightarrow> RealArray \<Rightarrow> RealArray \<Rightarrow> RMatrix
     \<Rightarrow> Projected option" where
  "regularInterpolation cb lr upar vpar wpar points =
     (if rational lr then None
      else
        let nBasis = nBasisFunctions lr in
        if length upar \<noteq> nBasis \<or> length vpar \<noteq> nBasis \<or> length wpar \<noteq> nBasis \<or>
           cols points \<noteq> nBasis
        then None
        else
          (case sparse_solve cb nBasis (interpolationMatrix lr upar vpar wpar)
                  (interpolationRHS points) of
             None \<Rightarrow> None
           | Some X \<Rightarrow>
               Some \<lparr>spline = lr, dimension = rows points,
                     controlPoints =
                       concat (map (\<lambda>i. map (\<lambda>j. X (1 + j * cols points + i))
                                             [0..<rows points])
                                   [0..<nBasis])\<rparr>))"

definition projectSolution ::
  "Collab \<Rightarrow> ASMu3D \<Rightarrow> LRSplineVolume \<Rightarrow> IntegrandBase \<Rightarrow> Projected option" where
  "projectSolution cb patch lr integr =
     (let r0 = getGrevilleParameters (Some lr) [] 0;
          r1 = getGrevilleParameters (Some lr) [] 1;
          r2 = getGrevilleParameters (Some lr) [] 2
      in if \<not> fst r0 \<or> \<not> fst r1 \<or> \<not> fst r2 then None
         else
           (case evalSolution patch integr (snd r0, snd r1, snd r2) of
              None \<Rightarrow> None
            | Some sValues \<Rightarrow> regularInterpolation cb lr (snd r0) (snd r1) (snd r2) sValues))"

subsection \<open>Superconvergent patch recovery\<close>

text \<open>
  The elements the local fit of a basis function runs over, with the source's
  \<open>if (true)\<close> in place of the former test \<open>nel*ng1*ng2*ng3 < nPol\<close>.
\<close>

definition fitElements :: "Basisfunction \<Rightarrow> Element list" where
  "fitElements b = (if True then getExtendedSupport b else supportedElements b)"

text \<open>
  One Gauss point \<open>(i,j,k)\<close>, the \<open>ig\<close>-th of its element: the monomials \<open>P\<close> at the point,
  relative to the Greville point \<open>G\<close>, are accumulated as \<open>A += P\<^sup>t P\<close> and
  \<open>B += P\<^sup>t sigma\<close>.
\<close>

definition scGaussPoint ::
  "LRSplineVolume \<Rightarrow> RealArray \<times> RealArray \<times> RealArray \<Rightarrow> real \<times> real \<times> real
     \<Rightarrow> int \<times> int \<times> int \<Rightarrow> nat \<Rightarrow> nat \<Rightarrow> RMatrix \<Rightarrow> nat \<times> nat \<times> nat \<times> nat
     \<Rightarrow> (nat \<times> nat \<Rightarrow> real) \<times> (nat \<times> nat \<Rightarrow> real)
     \<Rightarrow> (nat \<times> nat \<Rightarrow> real) \<times> (nat \<times> nat \<Rightarrow> real)" where
  "scGaussPoint lr gaussPt G n nCmp nPol sField pt AB =
     (case pt of (ig, i, j, k) \<Rightarrow>
      case gaussPt of (g0, g1, g2) \<Rightarrow>
      case G of (G0, G1, G2) \<Rightarrow>
      case n of (n1, n2, n3) \<Rightarrow>
      case point lr (g0 ! i) (g1 ! j) (g2 ! k) of (X0, X1, X2) \<Rightarrow>
        let P = evalMonomials n1 n2 n3 (X0 - G0) (X1 - G1) (X2 - G2)
        in fold (\<lambda>ii (Am, Bm).
                   (fold (\<lambda>jj M. M((ii, jj) := M (ii, jj) + P ! (ii - 1) * P ! (jj - 1)))
                         [1..<nPol + 1] Am,
                    fold (\<lambda>jj M. M((ii, jj) := M (ii, jj) + P ! (ii - 1) * entry sField (jj, ig)))
                         [1..<nCmp + 1] Bm))
                [1..<nPol + 1] AB)"

text \<open>
  The loop over the elements of the fit: Gauss point parameters of the element, the
  secondary solution there (a failure ends the recovery with a null pointer), and the
  Gauss point loop.
\<close>

fun scElements ::
  "ASMu3D \<Rightarrow> LRSplineVolume \<Rightarrow> IntegrandBase \<Rightarrow> int \<times> int \<times> int
     \<Rightarrow> real list \<times> real list \<times> real list \<Rightarrow> real \<times> real \<times> real
     \<Rightarrow> int \<times> int \<times> int \<Rightarrow> nat \<Rightarrow> nat \<Rightarrow> Element list
     \<Rightarrow> (nat \<times> nat \<Rightarrow> real) \<times> (nat \<times> nat \<Rightarrow> real)
     \<Rightarrow> ((nat \<times> nat \<Rightarrow> real) \<times> (nat \<times> nat \<Rightarrow> real)) option" where
  "scElements patch lr integrand ng xyz G n nCmp nPol [] AB = Some AB"
| "scElements patch lr integrand ng xyz G n nCmp nPol (el # els) AB =
     (case ng of (ng1, ng2, ng3) \<Rightarrow>
      case xyz of (xg, yg, zg) \<Rightarrow>
        let iel = int (el_id el) + 1;
            gaussPt = (getGaussPointParameters patch 0 ng1 iel xg,
                       getGaussPointParameters patch 1 ng2 iel yg,
                       getGaussPointParameters patch 2 ng3 iel zg)
        in (case evalSolution patch integrand (expandTensorGrid gaussPt) of
              None \<Rightarrow> None
            | Some sField \<Rightarrow>
                scElements patch lr integrand ng xyz G n nCmp nPol els
                  (fold (scGaussPoint lr gaussPt G n nCmp nPol sField)
                        (gaussLoop 1 ng1 ng2 ng3) AB)))"

text \<open>
  The local system of a basis function, assembled over the given elements around the
  point \<open>G\<close>, starting from zero matrices.
\<close>

definition scLocalSystem ::
  "ASMu3D \<Rightarrow> LRSplineVolume \<Rightarrow> IntegrandBase \<Rightarrow> int \<times> int \<times> int
     \<Rightarrow> real list \<times> real list \<times> real list \<Rightarrow> int \<times> int \<times> int \<Rightarrow> nat \<Rightarrow> nat
     \<Rightarrow> real \<times> real \<times> real \<Rightarrow> Element list
     \<Rightarrow> ((nat \<times> nat \<Rightarrow> real) \<times> (nat \<times> nat \<Rightarrow> real)) option" where
  "scLocalSystem patch lr integrand ng xyz n nCmp nPol G els =
     scElements patch lr integrand ng xyz G n nCmp nPol els ((\<lambda>_. 0), (\<lambda>_. 0))"

text \<open>
  The local system of the basis function \<open>b\<close>, the \<open>ip\<close>-th function of the patch
  (counted from 0), whose Greville point has the parameters \<open>gpar[.][ip]\<close>.
\<close>

definition scFunctionSystem ::
  "ASMu3D \<Rightarrow> LRSplineVolume \<Rightarrow> IntegrandBase \<Rightarrow> int \<times> int \<times> int
     \<Rightarrow> real list \<times> real list \<times> real list \<Rightarrow> int \<times> int \<times> int \<Rightarrow> nat \<Rightarrow> nat
     \<Rightarrow> RealArray \<times> RealArray \<times> RealArray \<Rightarrow> Basisfunction \<Rightarrow> nat
     \<Rightarrow> ((nat \<times> nat \<Rightarrow> real) \<times> (nat \<times> nat \<Rightarrow> real)) option" where
  "scFunctionSystem patch lr integrand ng xyz n nCmp nPol gpar b ip =
     (case gpar of (gp0, gp1, gp2) \<Rightarrow>
        let supportElements = fitElements b;
            G = point lr (gp0 ! ip) (gp1 ! ip) (gp2 ! ip)
        in scLocalSystem patch lr integrand ng xyz n nCmp nPol G supportElements)"

text \<open>The solved local system of a basis function: \<open>A.solve(B)\<close>.\<close>

definition scFunctionSolve ::
  "Collab \<Rightarrow> ASMu3D \<Rightarrow> LRSplineVolume \<Rightarrow> IntegrandBase \<Rightarrow> int \<times> int \<times> int
     \<Rightarrow> real list \<times> real list \<times> real list \<Rightarrow> int \<times> int \<times> int \<Rightarrow> nat \<Rightarrow> nat
     \<Rightarrow> RealArray \<times> RealArray \<times> RealArray \<Rightarrow> Basisfunction \<Rightarrow> nat
     \<Rightarrow> (nat \<times> nat \<Rightarrow> real) option" where
  "scFunctionSolve cb patch lr integrand ng xyz n nCmp nPol gpar b ip =
     (case scFunctionSystem patch lr integrand ng xyz n nCmp nPol gpar b ip of
        None \<Rightarrow> None
      | Some (Am, Bm) \<Rightarrow> dense_solve cb nPol Am Bm)"

text \<open>
  The loop over all basis functions: the first row of each solved system becomes
  column \<open>ip\<close> of \<open>sValues\<close>.
\<close>

fun scLoop ::
  "Collab \<Rightarrow> ASMu3D \<Rightarrow> LRSplineVolume \<Rightarrow> IntegrandBase \<Rightarrow> int \<times> int \<times> int
     \<Rightarrow> real list \<times> real list \<times> real list \<Rightarrow> int \<times> int \<times> int \<Rightarrow> nat \<Rightarrow> nat
     \<Rightarrow> RealArray \<times> RealArray \<times> RealArray \<Rightarrow> Basisfunction list \<Rightarrow> nat
     \<Rightarrow> RMatrix \<Rightarrow> RMatrix option" where
  "scLoop cb patch lr integrand ng xyz n nCmp nPol gpar [] ip sValues = Some sValues"
| "scLoop cb patch lr integrand ng xyz n nCmp nPol gpar (b # bs) ip sValues =
     (case scFunctionSolve cb patch lr integrand ng xyz n nCmp nPol gpar b ip of
        None \<Rightarrow> None
      | Some X \<Rightarrow>
          scLoop cb patch lr integrand ng xyz n nCmp nPol gpar bs (ip + 1)
            (sValues\<lparr>entry := fold (\<lambda>l e. e((l, ip + 1) := X (1, l)))
                                    [1..<nCmp + 1] (entry sValues)\<rparr>))"

text \<open>
  The locals of \<open>scRecovery\<close>: the numbers \<open>ng1, ng2, ng3\<close> of Gauss points per direction
  and their coordinates (a null pointer from \<open>getCoord\<close> ends the recovery), the patch
  sizes \<open>n1, n2, n3\<close>, the number \<open>nPol\<close> of terms of the polynomial expansion, and the
  Greville parameters \<open>gpar\<close> of the three directions.
\<close>

definition sc_ng :: "LRSplineVolume \<Rightarrow> IntegrandBase \<Rightarrow> int \<times> int \<times> int" where
  "sc_ng lr integrand =
     (let m = derivativeOrder integrand
      in (order lr 0 - m, order lr 1 - m, order lr 2 - m))"

definition sc_xyz ::
  "Collab \<Rightarrow> LRSplineVolume \<Rightarrow> IntegrandBase \<Rightarrow> (real list \<times> real list \<times> real list) option" where
  "sc_xyz cb lr integrand =
     (case sc_ng lr integrand of (ng1, ng2, ng3) \<Rightarrow>
      case (getCoord cb ng1, getCoord cb ng2, getCoord cb ng3) of
        (Some xg, Some yg, Some zg) \<Rightarrow> Some (xg, yg, zg)
      | _ \<Rightarrow> None)"

definition sc_n :: "LRSplineVolume \<Rightarrow> IntegrandBase \<Rightarrow> int \<times> int \<times> int" where
  "sc_n lr integrand =
     (let m = derivativeOrder integrand
      in (order lr 0 - m + 1, order lr 1 - m + 1, order lr 2 - m + 1))"

definition sc_nPol :: "LRSplineVolume \<Rightarrow> IntegrandBase \<Rightarrow> nat" where
  "sc_nPol lr integrand = (case sc_n lr integrand of (n1, n2, n3) \<Rightarrow> nat (n1 * n2 * n3))"

definition sc_gpar :: "LRSplineVolume \<Rightarrow> RealArray \<times> RealArray \<times> RealArray" where
  "sc_gpar lr =
     (snd (getGrevilleParameters (Some lr) [] 0),
      snd (getGrevilleParameters (Some lr) [] 1),
      snd (getGrevilleParameters (Some lr) [] 2))"

definition scRecovery ::
  "Collab \<Rightarrow> ASMu3D \<Rightarrow> LRSplineVolume \<Rightarrow> IntegrandBase \<Rightarrow> Projected option" where
  "scRecovery cb patch lr integrand =
     (case sc_xyz cb lr integrand of
        None \<Rightarrow> None
      | Some xyz \<Rightarrow>
          if \<not> fst (getGrevilleParameters (Some lr) [] 0) then None
          else if \<not> fst (getGrevilleParameters (Some lr) [] 1) then None
          else if \<not> fst (getGrevilleParameters (Some lr) [] 2) then None
          else
            (case sc_gpar lr of (gp0, gp1, gp2) \<Rightarrow>
               let nCmp = getNoFields integrand
               in (case scLoop cb patch lr integrand (sc_ng lr integrand) xyz
                          (sc_n lr integrand) nCmp (sc_nPol lr integrand) (gp0, gp1, gp2)
                          (getAllBasisfunctions lr) 0
                          \<lparr>rows = nCmp, cols = length gp0, entry = (\<lambda>_. 0)\<rparr> of
                     None \<Rightarrow> None
                   | Some sValues \<Rightarrow> regularInterpolation cb lr gp0 gp1 gp2 sValues)))"

subsection \<open>Assembly of the L2-projection matrices\<close>

text \<open>
  The basis function values at Gauss point \<open>(i,j,k)\<close> of element \<open>iel\<close>, and the
  Jacobian-scaled weight \<open>dJw\<close>: \<open>dA*wg[i]*wg[j]*wg[k]\<close> times the Jacobian determinant for
  the continuous projection (the flag \<open>continuous\<close> of the source, here \<open>contin\<close>), 1 for
  the discrete one.
\<close>

definition l2_phi ::
  "LRSplineVolume \<Rightarrow> bool \<Rightarrow> int \<Rightarrow> RealArray \<times> RealArray \<times> RealArray
     \<Rightarrow> nat \<times> nat \<times> nat \<times> nat \<Rightarrow> real list" where
  "l2_phi lr contin iel gpar pt =
     (case pt of (ip, i, j, k) \<Rightarrow>
      case gpar of (g0, g1, g2) \<Rightarrow>
        let spl = computeBasis lr (g0 ! i) (g1 ! j) (g2 ! k) (iel - 1)
        in if contin then fst (extractBasis spl) else basisValues spl)"

definition l2_dJw ::
  "Collab \<Rightarrow> LRSplineVolume \<Rightarrow> bool \<Rightarrow> int \<Rightarrow> real list list \<Rightarrow> real \<Rightarrow> real list
     \<Rightarrow> RealArray \<times> RealArray \<times> RealArray \<Rightarrow> nat \<times> nat \<times> nat \<times> nat \<Rightarrow> real" where
  "l2_dJw cb lr contin iel Xnod dA wg gpar pt =
     (case pt of (ip, i, j, k) \<Rightarrow>
      case gpar of (g0, g1, g2) \<Rightarrow>
        let spl = computeBasis lr (g0 ! i) (g1 ! j) (g2 ! k) (iel - 1)
        in if contin
           then dA * wg ! i * wg ! j * wg ! k * Jacobian cb Xnod (snd (extractBasis spl))
           else 1)"

text \<open>
  The accumulation \<open>A(inod,jnod) += phi[ii]*phi[jj]*dJw\<close> and
  \<open>B(inod+(r-1)*nnod) += phi[ii]*sField(r,ip+1)*dJw\<close> of one Gauss point.
\<close>

definition l2_integrate ::
  "ASMu3D \<Rightarrow> int \<Rightarrow> RMatrix \<Rightarrow> nat \<Rightarrow> real list \<Rightarrow> real
     \<Rightarrow> (int \<times> int \<Rightarrow> real) \<times> (int \<Rightarrow> real) \<Rightarrow> (int \<times> int \<Rightarrow> real) \<times> (int \<Rightarrow> real)" where
  "l2_integrate patch iel sField ip phi dJw AB =
     fold (\<lambda>ii (Am, Bv).
             let inod = MNPC patch (nat (iel - 1)) ii + 1
             in (fold (\<lambda>jj M.
                         let jnod = MNPC patch (nat (iel - 1)) jj + 1
                         in M((inod, jnod) := M (inod, jnod) + phi ! ii * phi ! jj * dJw))
                      [0..<length phi] Am,
                 fold (\<lambda>r V.
                         let idx = inod + (int r - 1) * int (getNoNodes patch)
                         in V(idx := V idx + phi ! ii * entry sField (r, ip + 1) * dJw))
                      [1..<rows sField + 1] Bv))
         [0..<length phi] AB"

text \<open>
  The body of the integration loop: a point of the continuous projection whose \<open>dJw\<close> is
  zero is left by \<open>continue\<close>.
\<close>

definition l2GaussPoint ::
  "Collab \<Rightarrow> ASMu3D \<Rightarrow> LRSplineVolume \<Rightarrow> bool \<Rightarrow> int \<Rightarrow> real list list \<Rightarrow> real
     \<Rightarrow> real list \<Rightarrow> RealArray \<times> RealArray \<times> RealArray \<Rightarrow> RMatrix
     \<Rightarrow> nat \<times> nat \<times> nat \<times> nat
     \<Rightarrow> (int \<times> int \<Rightarrow> real) \<times> (int \<Rightarrow> real) \<Rightarrow> (int \<times> int \<Rightarrow> real) \<times> (int \<Rightarrow> real)" where
  "l2GaussPoint cb patch lr contin iel Xnod dA wg gpar sField pt AB =
     (let phi = l2_phi lr contin iel gpar pt;
          dJw = l2_dJw cb lr contin iel Xnod dA wg gpar pt
      in if contin \<and> dJw = 0 then AB
         else l2_integrate patch iel sField (fst pt) phi dJw AB)"

text \<open>
  The integration loop of one element, and the part of the element loop body after the
  element coordinates and the element volume: Gauss point parameters, secondary solution
  (a failure ends the assembly with false) and integration loop.
\<close>

definition l2Integration ::
  "Collab \<Rightarrow> ASMu3D \<Rightarrow> LRSplineVolume \<Rightarrow> bool \<Rightarrow> int \<Rightarrow> real list list \<Rightarrow> real
     \<Rightarrow> real list \<Rightarrow> RealArray \<times> RealArray \<times> RealArray \<Rightarrow> RMatrix
     \<Rightarrow> (nat \<times> nat \<times> nat \<times> nat) list
     \<Rightarrow> (int \<times> int \<Rightarrow> real) \<times> (int \<Rightarrow> real) \<Rightarrow> (int \<times> int \<Rightarrow> real) \<times> (int \<Rightarrow> real)" where
  "l2Integration cb patch lr contin iel Xnod dA wg gpar sField pts AB =
     fold (l2GaussPoint cb patch lr contin iel Xnod dA wg gpar sField) pts AB"

definition l2ElementBody ::
  "Collab \<Rightarrow> ASMu3D \<Rightarrow> LRSplineVolume \<Rightarrow> IntegrandBase \<Rightarrow> bool \<Rightarrow> int \<times> int \<times> int
     \<Rightarrow> real list \<times> real list \<times> real list \<Rightarrow> real list \<Rightarrow> int \<Rightarrow> real list list \<Rightarrow> real
     \<Rightarrow> (int \<times> int \<Rightarrow> real) \<times> (int \<Rightarrow> real)
     \<Rightarrow> ((int \<times> int \<Rightarrow> real) \<times> (int \<Rightarrow> real)) option" where
  "l2ElementBody cb patch lr integrand contin ng xyz wg iel Xnod dA AB =
     (case ng of (ng1, ng2, ng3) \<Rightarrow>
      case xyz of (xg, yg, zg) \<Rightarrow>
        let gpar = (getGaussPointParameters patch 0 ng1 iel xg,
                    getGaussPointParameters patch 1 ng2 iel yg,
                    getGaussPointParameters patch 2 ng3 iel zg)
        in (case evalSolution patch integrand (expandTensorGrid gpar) of
              None \<Rightarrow> None
            | Some sField \<Rightarrow>
                Some (l2Integration cb patch lr contin iel Xnod dA wg gpar sField
                        (gaussLoop 0 ng1 ng2 ng3) AB)))"

text \<open>
  The loop over all elements of the patch, numbered from \<open>iel\<close> on. The status is false
  when the element coordinates are not available, the element volume is negative or the
  secondary solution cannot be evaluated; the matrices are as accumulated so far.
\<close>

fun l2Elements ::
  "Collab \<Rightarrow> ASMu3D \<Rightarrow> LRSplineVolume \<Rightarrow> IntegrandBase \<Rightarrow> bool \<Rightarrow> int \<times> int \<times> int
     \<Rightarrow> real list \<times> real list \<times> real list \<Rightarrow> real list \<Rightarrow> Element list \<Rightarrow> int
     \<Rightarrow> (int \<times> int \<Rightarrow> real) \<times> (int \<Rightarrow> real)
     \<Rightarrow> bool \<times> (int \<times> int \<Rightarrow> real) \<times> (int \<Rightarrow> real)" where
  "l2Elements cb patch lr integrand contin ng xyz wg [] iel AB = (True, AB)"
| "l2Elements cb patch lr integrand contin ng xyz wg (el # els) iel AB =
     (if contin then
        (case getElementCoordinates patch iel of
           None \<Rightarrow> (False, AB)
         | Some Xnod \<Rightarrow>
             let dA = 0.125 * getParametricVolume patch iel
             in if dA < 0 then (False, AB)
                else
                  (case l2ElementBody cb patch lr integrand contin ng xyz wg iel Xnod dA AB of
                     None \<Rightarrow> (False, AB)
                   | Some AB' \<Rightarrow>
                       l2Elements cb patch lr integrand contin ng xyz wg els (iel + 1) AB'))
      else
        (case l2ElementBody cb patch lr integrand contin ng xyz wg iel [] 0 AB of
           None \<Rightarrow> (False, AB)
         | Some AB' \<Rightarrow>
             l2Elements cb patch lr integrand contin ng xyz wg els (iel + 1) AB'))"

definition assembleL2matrices ::
  "Collab \<Rightarrow> ASMu3D \<Rightarrow> LRSplineVolume \<Rightarrow> IntegrandBase \<Rightarrow> bool
     \<Rightarrow> (int \<times> int \<Rightarrow> real) \<times> (int \<Rightarrow> real)
     \<Rightarrow> bool \<times> (int \<times> int \<Rightarrow> real) \<times> (int \<Rightarrow> real)" where
  "assembleL2matrices cb patch lr integrand contin AB =
     (let p1 = order lr 0; p2 = order lr 1; p3 = order lr 2;
          ng1 = (if contin then nGauss patch else p1 - 1);
          ng2 = (if contin then nGauss patch else p2 - 1);
          ng3 = (if contin then nGauss patch else p3 - 1);
          wg = (if contin then getWeight cb (nGauss patch) else None)
      in case (getCoord cb ng1, getCoord cb ng2, getCoord cb ng3) of
           (Some xg, Some yg, Some zg) \<Rightarrow>
             if contin \<and> wg = None then (False, AB)
             else l2Elements cb patch lr integrand contin (ng1, ng2, ng3) (xg, yg, zg)
                    (case wg of None \<Rightarrow> [] | Some w \<Rightarrow> w) (getAllElements lr) 1 AB
         | _ \<Rightarrow> (False, AB))"

subsection \<open>The local least-squares system of the recovery, as sums over sample points\<close>

text \<open>
  A sample of the local fit: the monomials \<open>P\<close> at a Gauss point, relative to the Greville
  point \<open>G\<close>, and the secondary solution at that point, one value per component.
\<close>

type_synonym sample = "real list \<times> (nat \<Rightarrow> real)"

definition scSample ::
  "LRSplineVolume \<Rightarrow> RealArray \<times> RealArray \<times> RealArray \<Rightarrow> real \<times> real \<times> real
     \<Rightarrow> int \<times> int \<times> int \<Rightarrow> RMatrix \<Rightarrow> nat \<times> nat \<times> nat \<times> nat \<Rightarrow> sample" where
  "scSample lr gaussPt G n sField pt =
     (case pt of (ig, i, j, k) \<Rightarrow>
      case gaussPt of (g0, g1, g2) \<Rightarrow>
      case G of (G0, G1, G2) \<Rightarrow>
      case n of (n1, n2, n3) \<Rightarrow>
      case point lr (g0 ! i) (g1 ! j) (g2 ! k) of (X0, X1, X2) \<Rightarrow>
        (evalMonomials n1 n2 n3 (X0 - G0) (X1 - G1) (X2 - G2), (\<lambda>c. entry sField (c, ig))))"

text \<open>
  The samples of one element, one per Gauss point, and of a list of elements; there are
  none when the secondary solution cannot be evaluated on one of the elements.
\<close>

definition scElementSamples ::
  "ASMu3D \<Rightarrow> LRSplineVolume \<Rightarrow> IntegrandBase \<Rightarrow> int \<times> int \<times> int
     \<Rightarrow> real list \<times> real list \<times> real list \<Rightarrow> real \<times> real \<times> real
     \<Rightarrow> int \<times> int \<times> int \<Rightarrow> Element \<Rightarrow> sample list option" where
  "scElementSamples patch lr integrand ng xyz G n el =
     (case ng of (ng1, ng2, ng3) \<Rightarrow>
      case xyz of (xg, yg, zg) \<Rightarrow>
        let iel = int (el_id el) + 1;
            gaussPt = (getGaussPointParameters patch 0 ng1 iel xg,
                       getGaussPointParameters patch 1 ng2 iel yg,
                       getGaussPointParameters patch 2 ng3 iel zg)
        in (case evalSolution patch integrand (expandTensorGrid gaussPt) of
              None \<Rightarrow> None
            | Some sField \<Rightarrow>
                Some (map (scSample lr gaussPt G n sField) (gaussLoop 1 ng1 ng2 ng3))))"

fun scSamples ::
  "ASMu3D \<Rightarrow> LRSplineVolume \<Rightarrow> IntegrandBase \<Rightarrow> int \<times> int \<times> int
     \<Rightarrow> real list \<times> real list \<times> real list \<Rightarrow> real \<times> real \<times> real
     \<Rightarrow> int \<times> int \<times> int \<Rightarrow> Element list \<Rightarrow> sample list option" where
  "scSamples patch lr integrand ng xyz G n [] = Some []"
| "scSamples patch lr integrand ng xyz G n (el # els) =
     (case scElementSamples patch lr integrand ng xyz G n el of
        None \<Rightarrow> None
      | Some S \<Rightarrow>
          (case scSamples patch lr integrand ng xyz G n els of
             None \<Rightarrow> None
           | Some R \<Rightarrow> Some (S @ R)))"

text \<open>
  The least-squares system of a list of samples: the matrix \<open>A = sum P\<^sup>t P\<close> of size
  \<open>nPol\<close> and the right-hand sides \<open>B = sum P\<^sup>t sigma\<close>, one column per component.
\<close>

definition lsqA :: "nat \<Rightarrow> sample list \<Rightarrow> nat \<times> nat \<Rightarrow> real" where
  "lsqA nPol S =
     (\<lambda>(ii, jj).
        if 1 \<le> ii \<and> ii \<le> nPol \<and> 1 \<le> jj \<and> jj \<le> nPol
        then sum_list (map (\<lambda>(P, sigma). P ! (ii - 1) * P ! (jj - 1)) S)
        else 0)"

definition lsqB :: "nat \<Rightarrow> nat \<Rightarrow> sample list \<Rightarrow> nat \<times> nat \<Rightarrow> real" where
  "lsqB nPol nCmp S =
     (\<lambda>(ii, jj).
        if 1 \<le> ii \<and> ii \<le> nPol \<and> 1 \<le> jj \<and> jj \<le> nCmp
        then sum_list (map (\<lambda>(P, sigma). P ! (ii - 1) * sigma jj) S)
        else 0)"

text \<open>
  The recovery in these terms: for the basis function number \<open>ip\<close> the least-squares
  system of the samples of its extended support is solved, the first row of the
  solution is column \<open>ip+1\<close> of the matrix of Greville point values, and this matrix is
  interpolated.
\<close>

definition scSolve_extended ::
  "Collab \<Rightarrow> ASMu3D \<Rightarrow> LRSplineVolume \<Rightarrow> IntegrandBase
     \<Rightarrow> real list \<times> real list \<times> real list \<Rightarrow> nat \<times> Basisfunction
     \<Rightarrow> (nat \<times> nat \<Rightarrow> real) option" where
  "scSolve_extended cb patch lr integrand xyz ipb =
     (case ipb of (ip, b) \<Rightarrow>
      case sc_gpar lr of (gp0, gp1, gp2) \<Rightarrow>
        (case scSamples patch lr integrand (sc_ng lr integrand) xyz
                (point lr (gp0 ! ip) (gp1 ! ip) (gp2 ! ip)) (sc_n lr integrand)
                (getExtendedSupport b) of
           None \<Rightarrow> None
         | Some S \<Rightarrow>
             dense_solve cb (sc_nPol lr integrand) (lsqA (sc_nPol lr integrand) S)
               (lsqB (sc_nPol lr integrand) (getNoFields integrand) S)))"

definition scRecovery_extended ::
  "Collab \<Rightarrow> ASMu3D \<Rightarrow> LRSplineVolume \<Rightarrow> IntegrandBase \<Rightarrow> Projected option" where
  "scRecovery_extended cb patch lr integrand =
     (case sc_xyz cb lr integrand of
        None \<Rightarrow> None
      | Some xyz \<Rightarrow>
          (case those (map (scSolve_extended cb patch lr integrand xyz)
                           (enumerate 0 (getAllBasisfunctions lr))) of
             None \<Rightarrow> None
           | Some Xs \<Rightarrow>
               (case sc_gpar lr of (gp0, gp1, gp2) \<Rightarrow>
                  regularInterpolation cb lr gp0 gp1 gp2
                    \<lparr>rows = getNoFields integrand, cols = length gp0,
                     entry = (\<lambda>(l, c).
                        if 1 \<le> l \<and> l \<le> getNoFields integrand \<and> 1 \<le> c \<and> c \<le> length Xs
                        then (Xs ! (c - 1)) (1, l) else 0)\<rparr>)))"

subsection \<open>The rule of the replaced test, and example objects\<close>

text \<open>
  The choice of elements by the test the source has commented out: the extended support
  only when the own support has fewer than \<open>nPol\<close> sample points.
\<close>

definition fitElements_by_count :: "int \<times> int \<times> int \<Rightarrow> nat \<Rightarrow> Basisfunction \<Rightarrow> Element list" where
  "fitElements_by_count ng nPol b =
     (case ng of (ng1, ng2, ng3) \<Rightarrow>
        if int (length (supportedElements b)) * ng1 * ng2 * ng3 < int nPol
        then getExtendedSupport b else supportedElements b)"

text \<open>
  A trilinear patch of one element: eight basis functions, function \<open>i + 2j + 4k\<close> with
  the Greville point \<open>(i,j,k)\<close>, each supported on the element.
\<close>

definition unit_element :: Element where
  "unit_element = \<lparr>el_id = 0, el_support = [0, 1, 2, 3, 4, 5, 6, 7]\<rparr>"

definition corner_function :: "nat \<Rightarrow> Basisfunction" where
  "corner_function q =
     \<lparr>getId = q,
      getGrevilleParameter = (\<lambda>d. real ((q div 2 ^ d) mod 2)),
      supportedElements = [unit_element],
      getExtendedSupport = [unit_element]\<rparr>"

definition trilinear :: LRSplineVolume where
  "trilinear =
     \<lparr>order = (\<lambda>_. 2), rational = False,
      getAllBasisfunctions = map corner_function [0, 1, 2, 3, 4, 5, 6, 7],
      getAllElements = [unit_element],
      getElement = (\<lambda>_. unit_element),
      getElementContaining = (\<lambda>_ _ _. 0),
      point = (\<lambda>u v w. (u, v, w)),
      computeBasis = (\<lambda>u v w iel.
        \<lparr>basisValues = [(1-u)*(1-v)*(1-w), u*(1-v)*(1-w), (1-u)*v*(1-w), u*v*(1-w),
                        (1-u)*(1-v)*w, u*(1-v)*w, (1-u)*v*w, u*v*w],
         basisDerivs_u = [], basisDerivs_v = [], basisDerivs_w = []\<rparr>)\<rparr>"

text \<open>
  A trilinear function in the interior of a larger mesh: supported on 8 elements, with
  an extended support of 64 elements.
\<close>

definition interior_function :: Basisfunction where
  "interior_function =
     \<lparr>getId = 21,
      getGrevilleParameter = (\<lambda>_. 1),
      supportedElements = map (\<lambda>e. \<lparr>el_id = e, el_support = []\<rparr>) [0..<8],
      getExtendedSupport = map (\<lambda>e. \<lparr>el_id = e, el_support = []\<rparr>) [0..<64]\<rparr>"

text \<open>
  Collaborators for the examples: one-point Gauss quadrature, a secondary solution with
  one component that is 1 at every point, and solvers that report a singular system or
  return the right-hand side.
\<close>

definition quadrature :: "int \<Rightarrow> real list option" where
  "quadrature ng = (if ng = 1 then Some [0] else None)"

definition weights :: "int \<Rightarrow> real list option" where
  "weights ng = (if ng = 1 then Some [2] else None)"

definition all_singular :: Collab where
  "all_singular =
     \<lparr>getCoord = quadrature, getWeight = weights, Jacobian = (\<lambda>_ _. 0),
      dense_solve = (\<lambda>_ _ _. None), sparse_solve = (\<lambda>_ _ _. None)\<rparr>"

definition global_singular :: Collab where
  "global_singular =
     \<lparr>getCoord = quadrature, getWeight = weights, Jacobian = (\<lambda>_ _. 0),
      dense_solve = (\<lambda>_ _ Bm. Some Bm), sparse_solve = (\<lambda>_ _ _. None)\<rparr>"

definition unit_field :: RMatrix where
  "unit_field = \<lparr>rows = 1, cols = 1, entry = (\<lambda>_. 1)\<rparr>"

definition unit_patch :: ASMu3D where
  "unit_patch =
     \<lparr>nGauss = 1, MNPC = (\<lambda>_ q. int q), getNoNodes = 8,
      getGaussPointParameters = (\<lambda>_ _ _ _. [0.5]),
      evalSolution = (\<lambda>_ _. Some unit_field),
      getElementCoordinates = (\<lambda>_. Some []),
      getParametricVolume = (\<lambda>_. 1)\<rparr>"

definition stress :: IntegrandBase where
  "stress = \<lparr>derivativeOrder = 1, getNoFields = 1\<rparr>"

section \<open>Properties of NewmarkMats\<close>

lemma overflow_threshold_large: "1024 < overflow_threshold"
  by (simp add: overflow_threshold_def)

lemma dbl_of_moderate: "\<bar>x\<bar> \<le> 1024 \<Longrightarrow> dbl_of x = Finite x"
  using overflow_threshold_large by (simp add: dbl_of_def)

lemma dmul_commute: "dmul x y = dmul y x"
  by (cases x; cases y) (simp_all add: mult.commute)

lemma vadd_same_length:
  "length y = length x \<Longrightarrow> vadd y x alfa = map2 (\<lambda>yi xi. dadd yi (dmul alfa xi)) y x"
  by (simp add: vadd_def)

lemma map2_map_left: "map2 f (map g xs) ys = map2 (\<lambda>x y. f (g x) y) xs ys"
  by (induction xs arbitrary: ys) (auto split: list.splits simp: zip_Cons1)

lemma map2_map_right: "map2 f xs (map g ys) = map2 (\<lambda>x y. f x (g y)) xs ys"
proof (induction xs arbitrary: ys)
  case Nil
  show ?case by simp
next
  case (Cons x xs)
  show ?case by (cases ys) (simp_all add: Cons.IH)
qed

lemma mat_multiply_smult: "mat_multiply X c = mat_smult c X"
  by (simp add: mat_multiply_def mat_smult_def vscale_def dmul_commute)

lemma mat_add_multiply_plus:
  assumes "length (elem M) = length (elem K)"
  shows "mat_add (mat_multiply M s1) K s2 = mat_plus (mat_smult s1 M) (mat_smult s2 K)"
  using assms
  by (simp add: mat_add_def mat_multiply_def mat_plus_def mat_smult_def vscale_def
      vadd_same_length map2_map_left map2_map_right dmul_commute)

text \<open>
  C2: \<open>getNewtonMatrix\<close> returns
  \<open>(alpha_m + alpha_f*alpha1*gamma*h) * M + alpha_f*(alpha2*gamma + beta*h)*h * K\<close> for the
  stored mass matrix \<open>M = A[1]\<close> and stiffness matrix \<open>K = A[2]\<close>, multiplied in addition by
  \<open>1/(beta*h*h)\<close> when displacement increments are the primary unknowns, which is the case
  exactly when the constructor argument \<open>b\<close> is negative. The matrix is also what \<open>A[0]\<close>
  holds afterwards.
\<close>

theorem getNewtonMatrix_formula:
  assumes "length (A nm) \<ge> 3" and "same_dims (A nm ! 1) (A nm ! 2)"
  shows "getNewtonMatrix nm
           = Some (NewtonMatrix_spec nm, nm\<lparr>A := (A nm)[0 := NewtonMatrix_spec nm]\<rparr>)
         \<and> slvDisp (NewmarkMats_ctor a1 a2 b c ga) = (b < 0)"
proof -
  have len: "length (elem (A nm ! 1)) = length (elem (A nm ! 2))"
    using assms(2) by (simp add: same_dims_def)
  have "getNewtonMatrix nm
           = Some (NewtonMatrix_spec nm, nm\<lparr>A := (A nm)[0 := NewtonMatrix_spec nm]\<rparr>)"
    using assms(1)
    unfolding getNewtonMatrix_def NewtonMatrix_spec_def Let_def mat_add_multiply_plus [OF len]
    by (simp add: mat_multiply_smult del: One_nat_def)
  moreover have "slvDisp (NewmarkMats_ctor a1 a2 b c ga) = (b < 0)"
    by (simp add: NewmarkMats_ctor_def Let_def)
  ultimately show ?thesis by simp
qed

theorem getNewtonMatrix_formula_witness:
  "length (A nm_example) \<ge> 3 \<and> same_dims (A nm_example ! 1) (A nm_example ! 2)
   \<and> map_option fst (getNewtonMatrix nm_example)
       = Some \<lparr>nrow = 1, ncol = 1, elem = [Finite 8]\<rparr>
   \<and> slvDisp nm_example"
proof -
  have l: "length (A nm_example) \<ge> 3"
    by (simp add: nm_example_def)
  have d: "same_dims (A nm_example ! 1) (A nm_example ! 2)"
    by (simp add: nm_example_def same_dims_def)
  have v: "NewtonMatrix_spec nm_example = \<lparr>nrow = 1, ncol = 1, elem = [Finite 8]\<rparr>"
    using overflow_threshold_large
    by (simp add: NewtonMatrix_spec_def nm_example_def NewmarkMats_ctor_def
        mat_plus_def mat_smult_def dbl_of_moderate)
  have s: "slvDisp nm_example"
    by (simp add: nm_example_def NewmarkMats_ctor_def)
  show ?thesis
    using getNewtonMatrix_formula [OF l d] l d s by (simp add: v)
qed

section \<open>Properties of NewmarkNLSIM\<close>

text \<open>
  C10: with fewer than three vectors in the solution history, \<open>predictStep\<close> and
  \<open>correctStep\<close> return false and leave the whole driver as it is: the solution vectors,
  the incremental displacement and the predicted velocity and acceleration.
\<close>

theorem short_history_rejected:
  assumes "length (solution s) < 3"
  shows "predictStep s param = (False, s) \<and> correctStep model s param converged = (False, s)"
  using assms by (simp add: predictStep_def correctStep_def)

theorem short_history_rejected_witness:
  "length (solution (zero_driver\<lparr>solution := [[Finite 1], [Finite 2]]\<rparr>)) < 3
   \<and> predictStep (zero_driver\<lparr>solution := [[Finite 1], [Finite 2]]\<rparr>) \<lparr>dt = 0.1, step = 1\<rparr>
       = (False, zero_driver\<lparr>solution := [[Finite 1], [Finite 2]]\<rparr>)
   \<and> correctStep \<lparr>getRHSvector = None, updateConfiguration = (\<lambda>_. True)\<rparr>
         (zero_driver\<lparr>solution := [[Finite 1], [Finite 2]]\<rparr>) \<lparr>dt = 0.1, step = 1\<rparr> True
       = (False, zero_driver\<lparr>solution := [[Finite 1], [Finite 2]]\<rparr>)"
proof -
  have l: "length (solution (zero_driver\<lparr>solution := [[Finite 1], [Finite 2]]\<rparr>)) < 3"
    by simp
  show ?thesis
    using short_history_rejected [OF l] l by simp
qed

lemma size_minus_3_exact:
  assumes "sz < 2 ^ 31"
  shows "size_minus_3 sz = int sz - 3"
proof (cases "3 \<le> sz")
  case True
  then have "0 \<le> int sz - 3" "int sz - 3 < 2 ^ 64" "int sz - 3 + 2^31 < 2^32"
    using assms by simp_all
  then show ?thesis
    by (simp add: size_minus_3_def Let_def)
next
  case False
  then have "sz = 0 \<or> sz = 1 \<or> sz = 2" by arith
  then show ?thesis
    by (auto simp: size_minus_3_def Let_def)
qed

lemma shift_history_shifted:
  assumes "Suc m < length sol" and "\<forall>n \<le> Suc m. length (sol ! n) = d"
  shows "shift_history m sol =
           Some (map (\<lambda>n. if 1 \<le> n \<and> n \<le> m then sol ! (n - 1) else sol ! n) [0..<length sol])"
  using assms
proof (induction m arbitrary: sol)
  case 0
  have "map (\<lambda>n. if 1 \<le> n \<and> n \<le> 0 then sol ! (n - 1) else sol ! n) [0..<length sol]
      = map (\<lambda>n. sol ! n) [0..<length sol]"
    by (rule map_cong) auto
  then show ?case by (simp add: map_nth)
next
  case (Suc m)
  let ?sol = "sol[Suc m := sol ! m]"
  have c: "std_copy (sol ! m) (sol ! Suc m) = Some (sol ! m)"
    using Suc.prems by (simp add: std_copy_def)
  have l: "Suc m < length ?sol" using Suc.prems by simp
  have e: "\<forall>n \<le> Suc m. length (?sol ! n) = d"
    using Suc.prems by (auto simp: nth_list_update)
  have "shift_history (Suc m) sol = shift_history m ?sol"
    using Suc.prems c by simp
  also have "\<dots> = Some (map (\<lambda>n. if 1 \<le> n \<and> n \<le> m then ?sol ! (n - 1) else ?sol ! n) [0..<length ?sol])"
    by (rule Suc.IH [OF l e])
  also have "map (\<lambda>n. if 1 \<le> n \<and> n \<le> m then ?sol ! (n - 1) else ?sol ! n) [0..<length ?sol]
      = map (\<lambda>n. if 1 \<le> n \<and> n \<le> Suc m then sol ! (n - 1) else sol ! n) [0..<length sol]"
    using Suc.prems by (auto simp: nth_list_update)
  finally show ?case .
qed

lemma map2_swap: "map2 f xs ys = map2 (\<lambda>y x. f x y) ys xs"
proof (induction xs arbitrary: ys)
  case Nil
  show ?case by simp
next
  case (Cons x xs)
  show ?case by (cases ys) (simp_all add: Cons.IH)
qed

lemma vadd_vscale:
  assumes "length v = length a"
  shows "vadd (vscale v c) a d = map2 (\<lambda>x y. dadd (dmul c x) (dmul d y)) v a"
  using assms by (simp add: vadd_same_length vscale_def map2_map_left dmul_commute)

lemma vadd_vscale_swap:
  assumes "length v = length a"
  shows "vadd (vscale a c) v d = map2 (\<lambda>x y. dadd (dmul c y) (dmul d x)) v a"
  using assms
  by (simp add: vadd_same_length vscale_def map2_map_left map2_swap [of _ a v] dmul_commute)

lemma predicted_velocity_eq:
  assumes "length v = length a"
  shows "vadd (vscale v (dsub (ddiv (Finite g) b) (Finite 1))) a
              (dmul (dsub (ddiv (Finite (0.5 * g)) b) (Finite 1)) (Finite t))
         = map2 (predVel_spec b g t) v a"
proof -
  have "predVel_spec b g t
      = (\<lambda>x y. dadd (dmul (dsub (ddiv (Finite g) b) (Finite 1)) x)
                   (dmul (dmul (dsub (ddiv (Finite (0.5 * g)) b) (Finite 1)) (Finite t)) y))"
    by (intro ext) (simp only: predVel_spec_def)
  then show ?thesis
    by (simp only: vadd_vscale [OF assms])
qed

lemma predicted_acceleration_eq:
  assumes "length v = length a"
  shows "vadd (vscale a (dsub (ddiv (Finite 0.5) b) (Finite 1))) v (ddiv (Finite 1) (b * t))
         = map2 (predAcc_factor b t) v a"
proof -
  have "predAcc_factor b t
      = (\<lambda>x y. dadd (dmul (dsub (ddiv (Finite 0.5) b) (Finite 1)) y)
                   (dmul (ddiv (Finite 1) (b * t)) x))"
    by (intro ext) (simp only: predAcc_factor_def dmul_commute [of _ "ddiv (Finite 1) (b * t)"])
  then show ?thesis
    by (simp only: vadd_vscale_swap [OF assms])
qed

lemma predAcc_factor_spec:
  assumes "ddiv (Finite 1) (b * t) \<noteq> NonFinite"
  shows "predAcc_factor b t v a = predAcc_spec b t v a"
proof -
  have "dmul v (ddiv (Finite 1) (b * t)) = ddiv v (b * t)"
  proof (cases v)
    case NonFinite
    then show ?thesis by simp
  next
    case (Finite x)
    show ?thesis
    proof (cases "overflow_threshold \<le> \<bar>b * t\<bar>")
      case True
      then have "b * t \<noteq> 0"
        using overflow_threshold_large by auto
      then show ?thesis
        using True Finite overflow_threshold_large by (simp add: dbl_of_def)
    next
      case False
      then show ?thesis
        using assms Finite by (auto simp: dbl_of_def split: if_splits)
    qed
  qed
  then show ?thesis
    by (simp add: predAcc_factor_def predAcc_spec_def)
qed

lemma map2_replicate: "map2 f (replicate n x) (replicate n y) = replicate n (f x y)"
  by (induction n) simp_all

lemma default_velocity_zero:
  assumes "\<bar>t\<bar> < overflow_threshold"
  shows "predVel_spec 0.3025 0.6 t (Finite 0) (Finite 0) = Finite 0"
proof -
  have z: "dbl_of 0 = Finite 0"
    by (simp add: dbl_of_moderate)
  have c1: "dsub (ddiv (Finite 0.6) 0.3025) (Finite 1) = Finite (0.6 / 0.3025 - 1)"
    using overflow_threshold_large by (simp add: dbl_of_moderate)
  have c2: "dsub (ddiv (Finite (0.5 * 0.6)) 0.3025) (Finite 1) = Finite (0.3 / 0.3025 - 1)"
    using overflow_threshold_large by (simp add: dbl_of_moderate)
  have "\<bar>(0.3 / 0.3025 - 1) * t\<bar> \<le> 1 * \<bar>t\<bar>"
    unfolding abs_mult by (rule mult_right_mono) simp_all
  then have "\<bar>(0.3 / 0.3025 - 1) * t\<bar> < overflow_threshold"
    using assms by simp
  then have c3: "dmul (Finite (0.3 / 0.3025 - 1)) (Finite t) = Finite ((0.3 / 0.3025 - 1) * t)"
    by (simp add: dbl_of_def)
  show ?thesis
    unfolding predVel_spec_def c1 c2 c3 by (simp add: z)
qed

lemma default_acceleration_zero:
  assumes "ddiv (Finite 1) (0.3025 * t) \<noteq> NonFinite"
  shows "predAcc_factor 0.3025 t (Finite 0) (Finite 0) = Finite 0"
proof -
  have z: "dbl_of 0 = Finite 0"
    by (simp add: dbl_of_moderate)
  have c: "dsub (ddiv (Finite 0.5) 0.3025) (Finite 1) = Finite (0.5 / 0.3025 - 1)"
    using overflow_threshold_large by (simp add: dbl_of_moderate)
  obtain r where r: "ddiv (Finite 1) (0.3025 * t) = Finite r"
    using assms by (cases "ddiv (Finite 1) (0.3025 * t)") auto
  show ?thesis
    unfolding predAcc_factor_def c r by (simp add: z)
qed

text \<open>
  C9: \<open>advanceStep\<close> shifts the displacement part of the solution history only: entry \<open>n\<close>
  receives the former entry \<open>n-1\<close> for every \<open>n\<close> from \<open>size-3\<close> down to 1, the current
  displacement \<open>solution[0]\<close> and the last two entries (velocity and acceleration) are
  left as they are, and so is the rest of the driver. It returns what incrementing the
  time step returns when \<open>updateTime\<close> is set, and true otherwise. The vectors of the
  history have one common length, as \<open>init\<close> sets them up.
\<close>

theorem advanceStep_shifts_displacements:
  assumes "length (solution s) < 2 ^ 31"
    and "\<forall>v \<in> set (solution s). length v = d"
  shows "advanceStep increment s param updateTime =
           Some (if updateTime then fst (increment param) else True,
                 s\<lparr>solution := shifted (solution s)\<rparr>,
                 if updateTime then snd (increment param) else param)"
proof -
  let ?sol = "solution s"
  have n0: "size_minus_3 (length ?sol) = int (length ?sol) - 3"
    by (rule size_minus_3_exact [OF assms(1)])
  have sh: "shift_history (nat (int (length ?sol) - 3)) ?sol = Some (shifted ?sol)"
  proof (cases "3 \<le> length ?sol")
    case True
    let ?m = "length ?sol - 3"
    have m: "nat (int (length ?sol) - 3) = ?m" by simp
    have l: "Suc ?m < length ?sol" using True by simp
    have e: "\<forall>n \<le> Suc ?m. length (?sol ! n) = d"
      using assms(2) l by simp
    have "map (\<lambda>n. if 1 \<le> n \<and> n \<le> ?m then ?sol ! (n - 1) else ?sol ! n) [0..<length ?sol]
        = shifted ?sol"
      unfolding shifted_def using True by auto
    then show ?thesis
      using shift_history_shifted [OF l e] m by simp
  next
    case False
    then have "nat (int (length ?sol) - 3) = 0" by simp
    moreover have "shifted ?sol = ?sol"
      unfolding shifted_def using False by (simp add: map_nth)
    ultimately show ?thesis by simp
  qed
  show ?thesis
    by (simp add: advanceStep_def n0 sh)
qed

theorem advanceStep_shifts_displacements_witness:
  "length (solution history5) < 2 ^ 31
   \<and> map length (solution history5) = [1, 1, 1, 1, 1]
   \<and> advanceStep next_step history5 \<lparr>dt = 0.1, step = 1\<rparr> True
       = Some (False,
               history5\<lparr>solution := [[Finite 1], [Finite 1], [Finite 2], [Finite 4], [Finite 5]]\<rparr>,
               \<lparr>dt = 0.1, step = 2\<rparr>)"
proof -
  have l: "length (solution history5) < 2 ^ 31"
    by (simp add: history5_def)
  have e: "\<forall>v \<in> set (solution history5). length v = 1"
    by (simp add: history5_def)
  have m: "map length (solution history5) = [1, 1, 1, 1, 1]"
    by (simp add: history5_def)
  have v: "shifted (solution history5)
      = [[Finite 1], [Finite 1], [Finite 2], [Finite 4], [Finite 5]]"
    by (simp add: history5_def shifted_def upt_conv_Cons)
  show ?thesis
    using advanceStep_shifts_displacements [OF l e, of next_step "\<lparr>dt = 0.1, step = 1\<rparr>" True] l m
    by (simp add: v next_step_def)
qed

text \<open>
  C4 (as amended): with at least three vectors in the history, \<open>predictStep\<close> succeeds and
  computes, for every degree of freedom, the predicted velocity
  \<open>(gamma/beta - 1)*v + (0.5*gamma/beta - 1)*dt*a\<close> and the predicted acceleration
  \<open>(0.5/beta - 1)*a + v*(1.0/(beta*dt))\<close> from the stored velocity \<open>v\<close> and acceleration
  \<open>a\<close>; the latter is \<open>(0.5/beta - 1)*a + v/(beta*dt)\<close> whenever the factor
  \<open>1.0/(beta*dt)\<close> is finite. The predictions replace the stored vectors, and \<open>predVel\<close>
  and \<open>predAcc\<close> hold their negatives. With the default \<open>beta = 0.3025\<close> and
  \<open>gamma = 0.6\<close> and a time step size for which the factor \<open>1.0/(beta*dt)\<close> is finite (the
  step size is not zero and not so small that the quotient overflows), a zero velocity
  and a zero acceleration give a zero predicted velocity and acceleration.
\<close>

theorem predictStep_formulas:
  assumes "3 \<le> length (solution s)" and "length (velocity s) = length (acceleration s)"
  shows "fst (predictStep s param)
    \<and> velocity (snd (predictStep s param))
        = map2 (predVel_spec (beta s) (gamma s) (dt param)) (velocity s) (acceleration s)
    \<and> acceleration (snd (predictStep s param))
        = map2 (predAcc_factor (beta s) (dt param)) (velocity s) (acceleration s)
    \<and> (ddiv (Finite 1) (beta s * dt param) \<noteq> NonFinite
       \<longrightarrow> acceleration (snd (predictStep s param))
        = map2 (predAcc_spec (beta s) (dt param)) (velocity s) (acceleration s))
    \<and> predVel (snd (predictStep s param))
        = vscale (velocity (snd (predictStep s param))) (Finite (- 1))
    \<and> predAcc (snd (predictStep s param))
        = vscale (acceleration (snd (predictStep s param))) (Finite (- 1))
    \<and> (beta s = 0.3025 \<and> gamma s = 0.6 \<and> \<bar>dt param\<bar> < overflow_threshold
         \<and> ddiv (Finite 1) (beta s * dt param) \<noteq> NonFinite
         \<and> velocity s = replicate n (Finite 0) \<and> acceleration s = replicate n (Finite 0)
       \<longrightarrow> velocity (snd (predictStep s param)) = replicate n (Finite 0)
         \<and> acceleration (snd (predictStep s param)) = replicate n (Finite 0)
         \<and> predVel (snd (predictStep s param)) = replicate n (Finite 0)
         \<and> predAcc (snd (predictStep s param)) = replicate n (Finite 0))"
proof -
  let ?k = "length (solution s)"
  let ?s' = "snd (predictStep s param)"
  have len: "length (solution s ! (?k - 2)) = length (solution s ! (?k - 1))"
    using assms(2) by (simp add: velocity_def acceleration_def)
  have ne: "?k - 2 \<noteq> ?k - 1" and lt: "?k - 2 < ?k" "?k - 1 < ?k"
    using assms(1) by simp_all
  have r: "fst (predictStep s param)"
    using assms(1) by (simp add: predictStep_def Let_def)
  have v: "velocity ?s'
        = map2 (predVel_spec (beta s) (gamma s) (dt param)) (velocity s) (acceleration s)"
    using assms(1) ne lt
    unfolding predictStep_def Let_def velocity_def acceleration_def
      predicted_velocity_eq [OF len] predicted_acceleration_eq [OF len]
    by (simp del: One_nat_def)
  have a: "acceleration ?s'
        = map2 (predAcc_factor (beta s) (dt param)) (velocity s) (acceleration s)"
    using assms(1) lt
    unfolding predictStep_def Let_def velocity_def acceleration_def
      predicted_velocity_eq [OF len] predicted_acceleration_eq [OF len]
    by (simp del: One_nat_def)
  have a': "acceleration ?s'
        = map2 (predAcc_spec (beta s) (dt param)) (velocity s) (acceleration s)"
    if "ddiv (Finite 1) (beta s * dt param) \<noteq> NonFinite"
  proof -
    have "predAcc_factor (beta s) (dt param) = predAcc_spec (beta s) (dt param)"
      by (intro ext) (rule predAcc_factor_spec [OF that])
    then show ?thesis
      by (simp only: a)
  qed
  have pv: "predVel ?s' = vscale (velocity ?s') (Finite (- 1))"
    using assms(1) ne lt
    by (simp add: predictStep_def Let_def velocity_def)
  have pa: "predAcc ?s' = vscale (acceleration ?s') (Finite (- 1))"
    using assms(1) lt
    by (simp add: predictStep_def Let_def acceleration_def)
  have z: "velocity ?s' = replicate n (Finite 0) \<and> acceleration ?s' = replicate n (Finite 0)
         \<and> predVel ?s' = replicate n (Finite 0) \<and> predAcc ?s' = replicate n (Finite 0)"
    if d: "beta s = 0.3025" "gamma s = 0.6" and t: "\<bar>dt param\<bar> < overflow_threshold"
      and f: "ddiv (Finite 1) (beta s * dt param) \<noteq> NonFinite"
      and h: "velocity s = replicate n (Finite 0)" "acceleration s = replicate n (Finite 0)"
  proof -
    have v0: "velocity ?s' = replicate n (Finite 0)"
      using default_velocity_zero [OF t]
      by (simp only: v h d map2_replicate)
    have a0: "acceleration ?s' = replicate n (Finite 0)"
      using default_acceleration_zero [OF f [unfolded d]]
      by (simp only: a h d map2_replicate)
    have "dmul (Finite 0) (Finite (- 1)) = Finite 0"
      by (simp add: dbl_of_moderate)
    then show ?thesis
      by (simp add: pv pa v0 a0 vscale_def)
  qed
  show ?thesis
    using r v a a' pv pa z by blast
qed

theorem predictStep_formulas_witness:
  "3 \<le> length (solution zero_driver)
   \<and> length (velocity zero_driver) = length (acceleration zero_driver)
   \<and> beta zero_driver = 0.3025 \<and> gamma zero_driver = 0.6
   \<and> ddiv (Finite 1) (beta zero_driver * dt \<lparr>dt = 0.1, step = 1\<rparr>) = Finite (1 / 0.03025)
   \<and> velocity zero_driver = replicate 1 (Finite 0)
   \<and> acceleration zero_driver = replicate 1 (Finite 0)
   \<and> velocity (snd (predictStep zero_driver \<lparr>dt = 0.1, step = 1\<rparr>)) = [Finite 0]
   \<and> acceleration (snd (predictStep zero_driver \<lparr>dt = 0.1, step = 1\<rparr>)) = [Finite 0]
   \<and> predVel (snd (predictStep zero_driver \<lparr>dt = 0.1, step = 1\<rparr>)) = [Finite 0]
   \<and> predAcc (snd (predictStep zero_driver \<lparr>dt = 0.1, step = 1\<rparr>)) = [Finite 0]"
proof -
  have l: "3 \<le> length (solution zero_driver)"
    by (simp add: zero_driver_def NewmarkNLSIM_ctor_def)
  have e: "length (velocity zero_driver) = length (acceleration zero_driver)"
    by (simp add: zero_driver_def NewmarkNLSIM_ctor_def velocity_def acceleration_def)
  have p: "beta zero_driver = 0.3025" "gamma zero_driver = 0.6"
    "velocity zero_driver = replicate 1 (Finite 0)"
    "acceleration zero_driver = replicate 1 (Finite 0)"
    by (simp_all add: zero_driver_def NewmarkNLSIM_ctor_def velocity_def acceleration_def)
  have t: "\<bar>dt \<lparr>dt = 0.1, step = 1\<rparr>\<bar> < overflow_threshold"
    using overflow_threshold_large by simp
  have f: "ddiv (Finite 1) (beta zero_driver * dt \<lparr>dt = 0.1, step = 1\<rparr>) = Finite (1 / 0.03025)"
    using overflow_threshold_large by (simp add: p dbl_of_moderate)
  then have f': "ddiv (Finite 1) (beta zero_driver * dt \<lparr>dt = 0.1, step = 1\<rparr>) \<noteq> NonFinite"
    by simp
  note th = predictStep_formulas [OF l e, of "\<lparr>dt = 0.1, step = 1\<rparr>" 1]
  have "velocity (snd (predictStep zero_driver \<lparr>dt = 0.1, step = 1\<rparr>)) = replicate 1 (Finite 0)
     \<and> acceleration (snd (predictStep zero_driver \<lparr>dt = 0.1, step = 1\<rparr>)) = replicate 1 (Finite 0)
     \<and> predVel (snd (predictStep zero_driver \<lparr>dt = 0.1, step = 1\<rparr>)) = replicate 1 (Finite 0)
     \<and> predAcc (snd (predictStep zero_driver \<lparr>dt = 0.1, step = 1\<rparr>)) = replicate 1 (Finite 0)"
    using th p t f' by blast
  then show ?thesis
    using l e p f by simp
qed

text \<open>
  C4 as stated fails for the time step size zero: \<open>1.0/(beta*dt)\<close> is then a division by
  zero, and the predicted acceleration of a zero history is not zero but non-finite.
\<close>

theorem zero_step_size_counterexample:
  "velocity zero_driver = [Finite 0] \<and> acceleration zero_driver = [Finite 0]
   \<and> beta zero_driver = 0.3025 \<and> gamma zero_driver = 0.6
   \<and> fst (predictStep zero_driver \<lparr>dt = 0, step = 1\<rparr>)
   \<and> acceleration (snd (predictStep zero_driver \<lparr>dt = 0, step = 1\<rparr>)) = [NonFinite]
   \<and> predAcc (snd (predictStep zero_driver \<lparr>dt = 0, step = 1\<rparr>)) = [NonFinite]"
  using overflow_threshold_large
  by (simp add: zero_driver_def NewmarkNLSIM_ctor_def predictStep_def velocity_def
      acceleration_def vadd_def vscale_def vfill_def dbl_of_moderate)

text \<open>
  The same happens for a nonzero step size that is too small: for \<open>dt = 1e-310\<close> the
  factor \<open>1.0/(beta*dt)\<close> overflows to an infinity, and the predicted acceleration of a
  zero history is not finite, although \<open>v/(beta*dt)\<close> is zero.
\<close>

lemma tiny_step_size_overflows:
  "ddiv (Finite 1) (beta zero_driver * (1 / 10 ^ 310)) = NonFinite
   \<and> acceleration (snd (predictStep zero_driver \<lparr>dt = 1 / 10 ^ 310, step = 1\<rparr>)) = [NonFinite]
   \<and> predAcc_spec (beta zero_driver) (1 / 10 ^ 310) (Finite 0) (Finite 0) = Finite 0"
proof -
  have b: "beta zero_driver = 0.3025"
    by (simp add: zero_driver_def NewmarkNLSIM_ctor_def)
  have f: "ddiv (Finite 1) (0.3025 * (1 / 10 ^ 310)) = NonFinite"
    by (simp add: dbl_of_def overflow_threshold_def)
  have c: "dsub (ddiv (Finite 0.5) 0.3025) (Finite 1) = Finite (0.5 / 0.3025 - 1)"
    using overflow_threshold_large by (simp add: dbl_of_moderate)
  have l: "3 \<le> length (solution zero_driver)"
    "solution zero_driver ! (length (solution zero_driver) - 2) = [Finite 0]"
    "solution zero_driver ! (length (solution zero_driver) - 1) = [Finite 0]"
    by (simp_all add: zero_driver_def NewmarkNLSIM_ctor_def)
  have "acceleration (snd (predictStep zero_driver \<lparr>dt = 1 / 10 ^ 310, step = 1\<rparr>))
      = vadd (vscale [Finite 0] (dsub (ddiv (Finite 0.5) 0.3025) (Finite 1))) [Finite 0]
          (ddiv (Finite 1) (0.3025 * (1 / 10 ^ 310)))"
    using l(1) unfolding predictStep_def Let_def acceleration_def l(2,3) b
    by (simp del: ddiv.simps dsub.simps)
  then have a: "acceleration (snd (predictStep zero_driver \<lparr>dt = 1 / 10 ^ 310, step = 1\<rparr>))
      = [NonFinite]"
    unfolding c f by (simp add: vadd_def vscale_def)
  have q: "ddiv (Finite 0) (0.3025 * (1 / 10 ^ 310)) = Finite 0"
    using overflow_threshold_large by (simp add: dbl_of_moderate)
  have s: "predAcc_spec 0.3025 (1 / 10 ^ 310) (Finite 0) (Finite 0) = Finite 0"
    unfolding predAcc_spec_def c q by (simp add: dbl_of_moderate)
  show ?thesis
    using f a s by (simp only: b)
qed

section \<open>Properties of the recovery on LR B-spline patches\<close>

text \<open>
  C8 (as amended): for a patch with a spline object and a direction \<open>dir\<close> in \<open>{0,1,2}\<close>,
  \<open>getGrevilleParameters\<close> returns true and fills the array with exactly
  \<open>nBasisFunctions()\<close> values, the Greville parameter in direction \<open>dir\<close> of each basis
  function in the order the spline enumerates its functions; for \<open>dir\<close> outside \<open>{0,1,2}\<close>
  or a missing spline it returns false and leaves the array as it is.
\<close>

theorem getGrevilleParameters_result:
  "(lrspline = Some lr \<and> 0 \<le> dir \<and> dir \<le> 2 \<longrightarrow>
      fst (getGrevilleParameters lrspline prm dir)
      \<and> length (snd (getGrevilleParameters lrspline prm dir)) = nBasisFunctions lr
      \<and> snd (getGrevilleParameters lrspline prm dir)
          = map (\<lambda>b. getGrevilleParameter b (nat dir)) (getAllBasisfunctions lr))
   \<and> (lrspline = None \<or> dir < 0 \<or> dir > 2 \<longrightarrow>
      getGrevilleParameters lrspline prm dir = (False, prm))"
  by (auto simp: getGrevilleParameters_def nBasisFunctions_def split: option.splits)

theorem getGrevilleParameters_result_witness:
  "fst (getGrevilleParameters (Some trilinear) [] 1)
   \<and> nBasisFunctions trilinear = 8
   \<and> length (snd (getGrevilleParameters (Some trilinear) [] 1)) = 8
   \<and> snd (getGrevilleParameters (Some trilinear) [] 1) = [0, 0, 1, 1, 0, 0, 1, 1]
   \<and> getGrevilleParameters None [5] 1 = (False, [5])
   \<and> getGrevilleParameters (Some trilinear) [5] 3 = (False, [5])"
proof -
  have v: "map (\<lambda>b. getGrevilleParameter b (Suc 0)) (getAllBasisfunctions trilinear)
      = [0, 0, 1, 1, 0, 0, 1, 1]"
    by (simp add: trilinear_def corner_function_def)
  have n: "length (getAllBasisfunctions trilinear) = 8"
    by (simp add: trilinear_def)
  show ?thesis
    using getGrevilleParameters_result [of "Some trilinear" trilinear 1 "[]"]
      getGrevilleParameters_result [of None trilinear 1 "[5]"]
      getGrevilleParameters_result [of "Some trilinear" trilinear 3 "[5]"]
    by (simp add: v n nBasisFunctions_def)
qed

text \<open>
  C8 as stated fails: the values are not sorted. On the trilinear patch of one element
  the parameters of direction 0 alternate between 0 and 1.
\<close>

theorem greville_not_monotone_counterexample:
  "fst (getGrevilleParameters (Some trilinear) [] 0)
   \<and> snd (getGrevilleParameters (Some trilinear) [] 0) = [0, 1, 0, 1, 0, 1, 0, 1]
   \<and> \<not> sorted (snd (getGrevilleParameters (Some trilinear) [] 0))"
  by (simp add: getGrevilleParameters_def trilinear_def corner_function_def)

text \<open>
  The order in which the spline enumerates its functions does not matter for this: two
  functions, one with the greater parameter in direction 0 and the other with the greater
  parameter in direction 1 (as two corners of the trilinear patch), in whichever order,
  leave the values of one of the two directions unsorted.
\<close>

lemma greville_order_independent:
  assumes f: "f \<in> set (getAllBasisfunctions lr)" and g: "g \<in> set (getAllBasisfunctions lr)"
    and d0: "getGrevilleParameter f 0 < getGrevilleParameter g 0"
    and d1: "getGrevilleParameter g 1 < getGrevilleParameter f 1"
  shows "\<not> (sorted (snd (getGrevilleParameters (Some lr) prm 0))
            \<and> sorted (snd (getGrevilleParameters (Some lr) prm 1)))"
proof
  let ?bs = "getAllBasisfunctions lr"
  assume s: "sorted (snd (getGrevilleParameters (Some lr) prm 0))
            \<and> sorted (snd (getGrevilleParameters (Some lr) prm 1))"
  then have s0: "sorted (map (\<lambda>b. getGrevilleParameter b 0) ?bs)"
    and s1: "sorted (map (\<lambda>b. getGrevilleParameter b 1) ?bs)"
    by (simp_all add: getGrevilleParameters_def)
  obtain i where i: "i < length ?bs" "?bs ! i = f"
    using f by (auto simp: in_set_conv_nth)
  obtain j where j: "j < length ?bs" "?bs ! j = g"
    using g by (auto simp: in_set_conv_nth)
  have "i \<noteq> j"
    using i j d0 by auto
  then consider "i < j" | "j < i"
    by arith
  then show False
  proof cases
    case 1
    then have "map (\<lambda>b. getGrevilleParameter b 1) ?bs ! i
        \<le> map (\<lambda>b. getGrevilleParameter b 1) ?bs ! j"
      using s1 j by (simp add: sorted_iff_nth_mono del: nth_map)
    then show False
      using i j d1 by simp
  next
    case 2
    then have "map (\<lambda>b. getGrevilleParameter b 0) ?bs ! j
        \<le> map (\<lambda>b. getGrevilleParameter b 0) ?bs ! i"
      using s0 i by (simp add: sorted_iff_nth_mono del: nth_map)
    then show False
      using i j d0 by simp
  qed
qed

text \<open>
  C5: \<open>regularInterpolation\<close> returns a null pointer when the spline is rational and when
  one of the three parameter arrays or the number of columns of the sample matrix differs
  from \<open>nBasisFunctions()\<close>, whatever the solver would do: no interpolation is attempted.
\<close>

theorem regularInterpolation_rejects:
  assumes "rational lr \<or> length upar \<noteq> nBasisFunctions lr \<or> length vpar \<noteq> nBasisFunctions lr
           \<or> length wpar \<noteq> nBasisFunctions lr \<or> cols points \<noteq> nBasisFunctions lr"
  shows "regularInterpolation cb lr upar vpar wpar points = None"
  using assms by (auto simp: regularInterpolation_def Let_def)

theorem regularInterpolation_rejects_witness:
  "cols unit_field \<noteq> nBasisFunctions trilinear
   \<and> regularInterpolation global_singular trilinear [0] [0] [0] unit_field = None
   \<and> rational (trilinear\<lparr>rational := True\<rparr>)
   \<and> regularInterpolation global_singular (trilinear\<lparr>rational := True\<rparr>) [] [] [] unit_field
       = None"
proof -
  have c: "cols unit_field \<noteq> nBasisFunctions trilinear"
    by (simp add: unit_field_def nBasisFunctions_def trilinear_def)
  have r: "rational (trilinear\<lparr>rational := True\<rparr>)"
    by simp
  show ?thesis
    using regularInterpolation_rejects [of trilinear "[0]" "[0]" "[0]" unit_field global_singular]
      regularInterpolation_rejects [of "trilinear\<lparr>rational := True\<rparr>" "[]" "[]" "[]" unit_field
        global_singular] c r
    by blast
qed

text \<open>
  C1 (as amended): for each basis function the local fit of \<open>scRecovery\<close> runs over the
  extended support of the function. This is the choice of the test
  \<open>nel*ng1*ng2*ng3 < nPol\<close> exactly when the own support has too few sample points, or
  when the own and the extended support are the same list.
\<close>

theorem fitElements_extended:
  "fitElements b = getExtendedSupport b
   \<and> (fitElements b = fitElements_by_count (ng1, ng2, ng3) nPol b
        \<longleftrightarrow> int (length (supportedElements b)) * ng1 * ng2 * ng3 < int nPol
            \<or> supportedElements b = getExtendedSupport b)"
  by (auto simp: fitElements_def fitElements_by_count_def)

theorem fitElements_extended_witness:
  "int (length (supportedElements (corner_function 0))) * 1 * 1 * 1 < int 8
   \<and> fitElements (corner_function 0) = fitElements_by_count (1, 1, 1) 8 (corner_function 0)
   \<and> fitElements (corner_function 0) = [unit_element]"
proof -
  have c: "int (length (supportedElements (corner_function 0))) * 1 * 1 * 1 < int 8"
    by (simp add: corner_function_def)
  have e: "getExtendedSupport (corner_function 0) = [unit_element]"
    by (simp add: corner_function_def)
  note t = fitElements_extended [of "corner_function 0" 1 1 1 8]
  have 1: "fitElements (corner_function 0) = getExtendedSupport (corner_function 0)"
    using t by blast
  have 2: "fitElements (corner_function 0) = fitElements_by_count (1, 1, 1) 8 (corner_function 0)"
    using t c by blast
  show ?thesis
    using 1 2 c e by simp
qed

text \<open>
  C1 as stated fails: a function with 8 support elements has enough sample points for
  the 8 terms of the polynomial (one Gauss point per element), and the fit still runs
  over the 64 elements of its extended support.
\<close>

theorem own_support_counterexample:
  "length (supportedElements interior_function) = 8
   \<and> fitElements_by_count (1, 1, 1) 8 interior_function = supportedElements interior_function
   \<and> length (fitElements interior_function) = 64
   \<and> fitElements interior_function \<noteq> fitElements_by_count (1, 1, 1) 8 interior_function"
proof -
  have a: "length (supportedElements interior_function) = 8"
    by (simp add: interior_function_def)
  have b: "fitElements_by_count (1, 1, 1) 8 interior_function = supportedElements interior_function"
    by (simp add: fitElements_by_count_def a)
  have c: "length (fitElements interior_function) = 64"
    by (simp add: fitElements_def interior_function_def)
  have "length (fitElements interior_function) \<noteq> length (supportedElements interior_function)"
    by (simp add: a c)
  then have "fitElements interior_function \<noteq> supportedElements interior_function"
    by metis
  then show ?thesis
    using a b c by simp
qed

lemma fold_row_update:
  assumes "distinct xs"
  shows "fold (\<lambda>j M. M((i, j) := M (i, j) + f j)) xs M0
         = (\<lambda>(r, c). if r = i \<and> c \<in> set xs then M0 (r, c) + f c else M0 (r, c))"
  using assms
proof (induction xs arbitrary: M0)
  case Nil
  show ?case by (simp add: fun_eq_iff)
next
  case (Cons x xs)
  then have x: "x \<notin> set xs" and d: "distinct xs"
    by simp_all
  let ?M1 = "M0((i, x) := M0 (i, x) + f x)"
  have "fold (\<lambda>j M. M((i, j) := M (i, j) + f j)) (x # xs) M0
      = fold (\<lambda>j M. M((i, j) := M (i, j) + f j)) xs ?M1"
    by simp
  also have "\<dots> = (\<lambda>(r, c). if r = i \<and> c \<in> set xs then ?M1 (r, c) + f c else ?M1 (r, c))"
    by (rule Cons.IH [OF d])
  also have "\<dots> = (\<lambda>(r, c). if r = i \<and> c \<in> set (x # xs) then M0 (r, c) + f c else M0 (r, c))"
    using x by (auto simp: fun_eq_iff)
  finally show ?case .
qed

lemma fold_block_update:
  assumes "distinct xs" and "distinct ys"
  shows "fold (\<lambda>i M. fold (\<lambda>j N. N((i, j) := N (i, j) + g i j)) ys M) xs M0
         = (\<lambda>(r, c). if r \<in> set xs \<and> c \<in> set ys then M0 (r, c) + g r c else M0 (r, c))"
  using assms(1)
proof (induction xs arbitrary: M0)
  case Nil
  show ?case by (simp add: fun_eq_iff)
next
  case (Cons x xs)
  then have x: "x \<notin> set xs" and d: "distinct xs"
    by simp_all
  let ?M1 = "(\<lambda>(r, c). if r = x \<and> c \<in> set ys then M0 (r, c) + g x c else M0 (r, c))"
  have "fold (\<lambda>i M. fold (\<lambda>j N. N((i, j) := N (i, j) + g i j)) ys M) (x # xs) M0
      = fold (\<lambda>i M. fold (\<lambda>j N. N((i, j) := N (i, j) + g i j)) ys M) xs
          (fold (\<lambda>j N. N((x, j) := N (x, j) + g x j)) ys M0)"
    by simp
  also have "fold (\<lambda>j N. N((x, j) := N (x, j) + g x j)) ys M0 = ?M1"
    by (rule fold_row_update [OF assms(2)])
  also have "fold (\<lambda>i M. fold (\<lambda>j N. N((i, j) := N (i, j) + g i j)) ys M) xs ?M1
      = (\<lambda>(r, c). if r \<in> set xs \<and> c \<in> set ys then ?M1 (r, c) + g r c else ?M1 (r, c))"
    by (rule Cons.IH [OF d])
  also have "\<dots> = (\<lambda>(r, c). if r \<in> set (x # xs) \<and> c \<in> set ys then M0 (r, c) + g r c
                              else M0 (r, c))"
    using x by (auto simp: fun_eq_iff)
  finally show ?case .
qed

lemma fold_pair:
  "fold (\<lambda>i (M, N). (F i M, H i N)) xs (M0, N0) = (fold F xs M0, fold H xs N0)"
  by (induction xs arbitrary: M0 N0) simp_all

lemma set_from_one: "set [1..<n + 1] = {r. 1 \<le> r \<and> r \<le> n}"
  by auto

lemma lsqA_Cons: "lsqA nPol [s] rc + lsqA nPol S rc = lsqA nPol (s # S) rc"
  by (cases rc) (simp add: lsqA_def)

lemma lsqB_Cons: "lsqB nPol nCmp [s] rc + lsqB nPol nCmp S rc = lsqB nPol nCmp (s # S) rc"
  by (cases rc) (simp add: lsqB_def)

lemma lsqA_append: "lsqA nPol (S @ R) rc = lsqA nPol S rc + lsqA nPol R rc"
  by (cases rc) (simp add: lsqA_def)

lemma lsqB_append: "lsqB nPol nCmp (S @ R) rc = lsqB nPol nCmp S rc + lsqB nPol nCmp R rc"
  by (cases rc) (simp add: lsqB_def)

lemma lsqA_Nil: "lsqA nPol [] rc = 0"
  by (cases rc) (simp add: lsqA_def)

lemma lsqB_Nil: "lsqB nPol nCmp [] rc = 0"
  by (cases rc) (simp add: lsqB_def)

lemma scGaussPoint_sample:
  "scGaussPoint lr gaussPt G n nCmp nPol sField pt (Am, Bm)
   = ((\<lambda>rc. Am rc + lsqA nPol [scSample lr gaussPt G n sField pt] rc),
      (\<lambda>rc. Bm rc + lsqB nPol nCmp [scSample lr gaussPt G n sField pt] rc))"
proof -
  obtain ig i j k where pt: "pt = (ig, i, j, k)" by (cases pt) auto
  obtain g0 g1 g2 where g: "gaussPt = (g0, g1, g2)" by (cases gaussPt) auto
  obtain G0 G1 G2 where G: "G = (G0, G1, G2)" by (cases G) auto
  obtain n1 n2 n3 where n: "n = (n1, n2, n3)" by (cases n) auto
  obtain X0 X1 X2 where X: "point lr (g0 ! i) (g1 ! j) (g2 ! k) = (X0, X1, X2)"
    by (cases "point lr (g0 ! i) (g1 ! j) (g2 ! k)") auto
  let ?P = "evalMonomials n1 n2 n3 (X0 - G0) (X1 - G1) (X2 - G2)"
  have s: "scSample lr gaussPt G n sField pt = (?P, (\<lambda>c. entry sField (c, ig)))"
    by (simp add: scSample_def pt g G n X)
  have d: "distinct [1..<nPol + 1]" "distinct [1..<nCmp + 1]"
    by simp_all
  have "scGaussPoint lr gaussPt G n nCmp nPol sField pt (Am, Bm)
      = (fold (\<lambda>ii M. fold (\<lambda>jj N. N((ii, jj) := N (ii, jj) + ?P ! (ii - 1) * ?P ! (jj - 1)))
                  [1..<nPol + 1] M) [1..<nPol + 1] Am,
         fold (\<lambda>ii M. fold (\<lambda>jj N. N((ii, jj) := N (ii, jj) + ?P ! (ii - 1) * entry sField (jj, ig)))
                  [1..<nCmp + 1] M) [1..<nPol + 1] Bm)"
    by (simp add: scGaussPoint_def pt g G n X Let_def fold_pair)
  also have "\<dots> = ((\<lambda>rc. Am rc + lsqA nPol [(?P, (\<lambda>c. entry sField (c, ig)))] rc),
      (\<lambda>rc. Bm rc + lsqB nPol nCmp [(?P, (\<lambda>c. entry sField (c, ig)))] rc))"
    unfolding fold_block_update [OF d(1) d(1)] fold_block_update [OF d(1) d(2)]
    by (auto simp: fun_eq_iff lsqA_def lsqB_def)
  finally show ?thesis
    by (simp add: s)
qed

lemma scGaussLoop_samples:
  "fold (scGaussPoint lr gaussPt G n nCmp nPol sField) pts (Am, Bm)
   = ((\<lambda>rc. Am rc + lsqA nPol (map (scSample lr gaussPt G n sField) pts) rc),
      (\<lambda>rc. Bm rc + lsqB nPol nCmp (map (scSample lr gaussPt G n sField) pts) rc))"
proof (induction pts arbitrary: Am Bm)
  case Nil
  show ?case by (simp add: lsqA_Nil lsqB_Nil)
next
  case (Cons pt pts)
  show ?case
    by (simp add: scGaussPoint_sample Cons.IH add.assoc lsqA_Cons lsqB_Cons)
qed

lemma scElements_samples:
  "scElements patch lr integrand ng xyz G n nCmp nPol els (Am, Bm)
   = map_option (\<lambda>S. ((\<lambda>rc. Am rc + lsqA nPol S rc), (\<lambda>rc. Bm rc + lsqB nPol nCmp S rc)))
       (scSamples patch lr integrand ng xyz G n els)"
proof (induction els arbitrary: Am Bm)
  case Nil
  show ?case by (simp add: lsqA_Nil lsqB_Nil)
next
  case (Cons el els)
  obtain ng1 ng2 ng3 where ng: "ng = (ng1, ng2, ng3)" by (cases ng) auto
  obtain xg yg zg where xyz: "xyz = (xg, yg, zg)" by (cases xyz) auto
  let ?gaussPt = "(getGaussPointParameters patch 0 ng1 (int (el_id el) + 1) xg,
                   getGaussPointParameters patch 1 ng2 (int (el_id el) + 1) yg,
                   getGaussPointParameters patch 2 ng3 (int (el_id el) + 1) zg)"
  show ?case
  proof (cases "evalSolution patch integrand (expandTensorGrid ?gaussPt)")
    case None
    then show ?thesis
      by (simp add: ng xyz scElementSamples_def Let_def del: One_nat_def)
  next
    case (Some sField)
    then show ?thesis
      by (cases "scSamples patch lr integrand (ng1, ng2, ng3) (xg, yg, zg) G n els")
        (simp_all add: ng xyz scElementSamples_def Let_def scGaussLoop_samples
          Cons.IH [unfolded ng xyz] lsqA_append lsqB_append add.assoc del: One_nat_def)
  qed
qed

lemma scLocalSystem_samples:
  "scLocalSystem patch lr integrand ng xyz n nCmp nPol G els
   = map_option (\<lambda>S. (lsqA nPol S, lsqB nPol nCmp S))
       (scSamples patch lr integrand ng xyz G n els)"
  by (simp add: scLocalSystem_def scElements_samples)


lemma scFunctionSystem_samples:
  "scFunctionSystem patch lr integrand ng xyz n nCmp nPol (gp0, gp1, gp2) b ip
   = map_option (\<lambda>S. (lsqA nPol S, lsqB nPol nCmp S))
       (scSamples patch lr integrand ng xyz (point lr (gp0 ! ip) (gp1 ! ip) (gp2 ! ip)) n
          (getExtendedSupport b))"
  by (simp add: scFunctionSystem_def fitElements_def scLocalSystem_samples)

lemma scFunctionSolve_extended:
  assumes "sc_gpar lr = (gp0, gp1, gp2)"
  shows "scFunctionSolve cb patch lr integrand (sc_ng lr integrand) xyz (sc_n lr integrand)
           (getNoFields integrand) (sc_nPol lr integrand) (gp0, gp1, gp2) b ip
         = scSolve_extended cb patch lr integrand xyz (ip, b)"
  by (simp add: scFunctionSolve_def scFunctionSystem_samples scSolve_extended_def assms
      split: option.splits)

lemma fold_column_store:
  "fold (\<lambda>l e. e((l, c0) := val l)) ls e0
   = (\<lambda>(l, c). if c = c0 \<and> l \<in> set ls then val l else e0 (l, c))"
proof (induction ls arbitrary: e0)
  case Nil
  show ?case by (simp add: fun_eq_iff)
next
  case (Cons x ls)
  show ?case
    unfolding fold_Cons comp_def Cons.IH by (auto simp: fun_eq_iff)
qed

lemma scLoop_those:
  "scLoop cb patch lr integrand ng xyz n nCmp nPol gpar bs ip sv
   = (case those (map (\<lambda>(q, b). scFunctionSolve cb patch lr integrand ng xyz n nCmp nPol gpar b q)
                      (enumerate ip bs)) of
        None \<Rightarrow> None
      | Some Xs \<Rightarrow>
          Some (sv\<lparr>entry := (\<lambda>(l, c).
                  if 1 \<le> l \<and> l \<le> nCmp \<and> ip + 1 \<le> c \<and> c \<le> ip + length Xs
                  then (Xs ! (c - ip - 1)) (1, l) else entry sv (l, c))\<rparr>))"
proof (induction bs arbitrary: ip sv)
  case Nil
  have "(\<lambda>(l, c). if 1 \<le> l \<and> l \<le> nCmp \<and> ip + 1 \<le> c \<and> c \<le> ip + length ([] :: (nat \<times> nat \<Rightarrow> real) list)
                  then (([] :: (nat \<times> nat \<Rightarrow> real) list) ! (c - ip - 1)) (1, l) else entry sv (l, c))
      = entry sv"
    by (auto simp: fun_eq_iff)
  then show ?case
    by simp
next
  case (Cons b bs)
  let ?solve = "\<lambda>(q, b). scFunctionSolve cb patch lr integrand ng xyz n nCmp nPol gpar b q"
  show ?case
  proof (cases "scFunctionSolve cb patch lr integrand ng xyz n nCmp nPol gpar b ip")
    case None
    then show ?thesis by simp
  next
    case (Some X)
    define ls where "ls = [1..<nCmp + 1]"
    have ls: "l \<in> set ls \<longleftrightarrow> 1 \<le> l \<and> l \<le> nCmp" for l
      by (auto simp: ls_def)
    let ?sv1 = "sv\<lparr>entry := fold (\<lambda>l e. e((l, ip + 1) := X (1, l))) ls (entry sv)\<rparr>"
    have step: "scLoop cb patch lr integrand ng xyz n nCmp nPol gpar (b # bs) ip sv
        = scLoop cb patch lr integrand ng xyz n nCmp nPol gpar bs (ip + 1) ?sv1"
      using Some by (simp add: ls_def)
    show ?thesis
    proof (cases "those (map ?solve (enumerate (ip + 1) bs))")
      case None
      then show ?thesis
        using Some by (simp add: step Cons.IH)
    next
      case (Some Xs)
      have e: "(\<lambda>(l, c). if 1 \<le> l \<and> l \<le> nCmp \<and> ip + 1 + 1 \<le> c \<and> c \<le> ip + 1 + length Xs
                   then (Xs ! (c - (ip + 1) - 1)) (1, l) else entry ?sv1 (l, c))
          = (\<lambda>(l, c). if 1 \<le> l \<and> l \<le> nCmp \<and> ip + 1 \<le> c \<and> c \<le> ip + length (X # Xs)
                   then ((X # Xs) ! (c - ip - 1)) (1, l) else entry sv (l, c))"
        by (auto simp: fun_eq_iff fold_column_store ls nth_Cons' Suc_diff_Suc)
      have "scLoop cb patch lr integrand ng xyz n nCmp nPol gpar (b # bs) ip sv
          = Some (?sv1\<lparr>entry := (\<lambda>(l, c).
                   if 1 \<le> l \<and> l \<le> nCmp \<and> ip + 1 + 1 \<le> c \<and> c \<le> ip + 1 + length Xs
                   then (Xs ! (c - (ip + 1) - 1)) (1, l) else entry ?sv1 (l, c))\<rparr>)"
        using Some by (simp only: step Cons.IH option.case)
      also have "\<dots> = Some (sv\<lparr>entry := (\<lambda>(l, c).
                   if 1 \<le> l \<and> l \<le> nCmp \<and> ip + 1 \<le> c \<and> c \<le> ip + length (X # Xs)
                   then ((X # Xs) ! (c - ip - 1)) (1, l) else entry sv (l, c))\<rparr>)"
        by (simp only: e) simp
      finally show ?thesis
        using Some \<open>scFunctionSolve cb patch lr integrand ng xyz n nCmp nPol gpar b ip = Some X\<close>
        by simp
    qed
  qed
qed

lemma scLoop_from_zero:
  "scLoop cb patch lr integrand ng xyz n nCmp nPol gpar bs 0
       \<lparr>rows = r, cols = k, entry = (\<lambda>_. 0)\<rparr>
   = (case those (map (\<lambda>(q, b). scFunctionSolve cb patch lr integrand ng xyz n nCmp nPol gpar b q)
                      (enumerate 0 bs)) of
        None \<Rightarrow> None
      | Some Xs \<Rightarrow>
          Some \<lparr>rows = r, cols = k,
                entry = (\<lambda>(l, c). if 1 \<le> l \<and> l \<le> nCmp \<and> 1 \<le> c \<and> c \<le> length Xs
                                  then (Xs ! (c - 1)) (1, l) else 0)\<rparr>)"
proof (cases "those (map (\<lambda>(q, b). scFunctionSolve cb patch lr integrand ng xyz n nCmp nPol gpar b q)
                      (enumerate 0 bs))")
  case None
  then show ?thesis
    by (simp add: scLoop_those)
next
  case (Some Xs)
  have "(\<lambda>(l, c). if 1 \<le> l \<and> l \<le> nCmp \<and> 0 + 1 \<le> c \<and> c \<le> 0 + length Xs
           then (Xs ! (c - 0 - 1)) (1, l)
           else entry \<lparr>rows = r, cols = k, entry = (\<lambda>_. 0)\<rparr> (l, c))
      = (\<lambda>(l, c). if 1 \<le> l \<and> l \<le> nCmp \<and> 1 \<le> c \<and> c \<le> length Xs
           then (Xs ! (c - 1)) (1, l) else 0)"
    by (auto simp: fun_eq_iff)
  then show ?thesis
    unfolding scLoop_those Some by simp
qed

lemma getGrevilleParameters_ok:
  "fst (getGrevilleParameters (Some lr) prm 0)"
  "fst (getGrevilleParameters (Some lr) prm 1)"
  "fst (getGrevilleParameters (Some lr) prm 2)"
  by (simp_all add: getGrevilleParameters_def)

text \<open>
  C3: for every basis function the local least-squares system of \<open>scRecovery\<close> is the
  system \<open>A = sum P\<^sup>t P\<close>, \<open>B = sum P\<^sup>t sigma\<close> of the samples at all Gauss points of
  all elements of the extended support of the function, whatever elements (and however
  many) the own support of the function has; \<open>scRecovery\<close> solves these systems, one per
  basis function, and interpolates the first rows of the solutions.
\<close>

theorem scRecovery_extended_support:
  "scFunctionSystem patch lr integrand ng xyz n nCmp nPol (gp0, gp1, gp2)
       (b\<lparr>supportedElements := own\<rparr>) ip
     = map_option (\<lambda>S. (lsqA nPol S, lsqB nPol nCmp S))
         (scSamples patch lr integrand ng xyz (point lr (gp0 ! ip) (gp1 ! ip) (gp2 ! ip)) n
            (getExtendedSupport b))
   \<and> scRecovery cb patch lr integrand = scRecovery_extended cb patch lr integrand"
proof -
  have 1: "scFunctionSystem patch lr integrand ng xyz n nCmp nPol (gp0, gp1, gp2)
       (b\<lparr>supportedElements := own\<rparr>) ip
     = map_option (\<lambda>S. (lsqA nPol S, lsqB nPol nCmp S))
         (scSamples patch lr integrand ng xyz (point lr (gp0 ! ip) (gp1 ! ip) (gp2 ! ip)) n
            (getExtendedSupport b))"
    by (simp add: scFunctionSystem_samples)
  have 2: "scRecovery cb patch lr integrand = scRecovery_extended cb patch lr integrand"
  proof (cases "sc_xyz cb lr integrand")
    case None
    then show ?thesis
      by (simp add: scRecovery_def scRecovery_extended_def)
  next
    case (Some xyz)
    obtain q0 q1 q2 where gp: "sc_gpar lr = (q0, q1, q2)"
      by (cases "sc_gpar lr") auto
    have f: "(\<lambda>(q, b). scFunctionSolve cb patch lr integrand (sc_ng lr integrand) xyz
                (sc_n lr integrand) (getNoFields integrand) (sc_nPol lr integrand)
                (q0, q1, q2) b q)
        = scSolve_extended cb patch lr integrand xyz"
      by (auto simp: fun_eq_iff scFunctionSolve_extended [OF gp])
    show ?thesis
      by (simp add: scRecovery_def scRecovery_extended_def Some gp getGrevilleParameters_ok
          scLoop_from_zero f Let_def split: option.splits)
  qed
  show ?thesis
    using 1 2 by simp
qed


text \<open>
  A corner function of the trilinear patch, with its own support emptied: the system is
  still the one of the Gauss point \<open>(1/2,1/2,1/2)\<close> of the element of its extended support.
\<close>

lemma monomials_example:
  "evalMonomials 2 2 2 (1/2) (1/2) (1/2) = [1, 1/2, 1/2, 1/4, 1/2, 1/4, 1/4, 1/8]"
  by (simp add: evalMonomials_def upt_conv_Cons eval_nat_numeral)

lemma samples_example:
  "scSamples unit_patch trilinear stress (1, 1, 1) ([0], [0], [0]) (0, 0, 0) (2, 2, 2)
       [unit_element]
   = Some [([1, 1/2, 1/2, 1/4, 1/2, 1/4, 1/4, 1/8], (\<lambda>c. entry unit_field (c, 1)))]"
  by (simp add: scElementSamples_def unit_patch_def Let_def gaussLoop_def enumerate_eq_zip
      scSample_def trilinear_def monomials_example upt_conv_Cons)

theorem scRecovery_extended_support_witness:
  "map_option (\<lambda>(Am, Bm). (Am (1, 1), Am (2, 2), Am (9, 1), Bm (1, 1), Bm (2, 1)))
     (scFunctionSystem unit_patch trilinear stress (1, 1, 1) ([0], [0], [0]) (2, 2, 2) 1 8
        ([0], [0], [0]) ((corner_function 0)\<lparr>supportedElements := []\<rparr>) 0)
   = Some (1, 1/4, 0, 1, 1/2)"
proof -
  have p: "point trilinear ([0] ! 0) ([0] ! 0) ([0] ! 0) = (0, 0, 0)"
    by (simp add: trilinear_def)
  have e: "getExtendedSupport (corner_function 0) = [unit_element]"
    by (simp add: corner_function_def)
  note t = scRecovery_extended_support [where patch = unit_patch
      and lr = trilinear and integrand = stress and ng = "(1, 1, 1)"
      and xyz = "([0], [0], [0])" and n = "(2, 2, 2)" and nCmp = 1 and nPol = 8
      and ?gp0.0 = "[0]" and ?gp1.0 = "[0]" and ?gp2.0 = "[0]" and b = "corner_function 0"
      and own = "[]" and ip = 0, THEN conjunct1]
  show ?thesis
    unfolding t p e samples_example
    by (simp add: lsqA_def lsqB_def unit_field_def)
qed

lemma l2GaussPoint_skip:
  assumes "l2_dJw cb lr True iel Xnod dA wg gpar pt = 0"
  shows "l2GaussPoint cb patch lr True iel Xnod dA wg gpar sField pt AB = AB"
  using assms by (simp add: l2GaussPoint_def)

lemma l2Integration_append:
  "l2Integration cb patch lr c iel Xnod dA wg gpar sField (ps @ qs) AB
   = l2Integration cb patch lr c iel Xnod dA wg gpar sField qs
       (l2Integration cb patch lr c iel Xnod dA wg gpar sField ps AB)"
  by (simp add: l2Integration_def)

lemma l2ElementBody_fails_iff:
  "l2ElementBody (cb\<lparr>Jacobian := J\<rparr>) patch lr integrand c ng xyz wg iel Xnod dA AB = None
   \<longleftrightarrow> l2ElementBody cb patch lr integrand c ng xyz wg iel Xnod dA AB' = None"
  by (cases ng; cases xyz) (simp add: l2ElementBody_def Let_def split: option.splits)

lemma l2Elements_status:
  "fst (l2Elements (cb\<lparr>Jacobian := J\<rparr>) patch lr integrand c ng xyz wg els iel AB)
   = fst (l2Elements cb patch lr integrand c ng xyz wg els iel AB')"
proof (induction els arbitrary: iel AB AB')
  case Nil
  show ?case by simp
next
  case (Cons el els)
  have body: "fst (case l2ElementBody (cb\<lparr>Jacobian := J\<rparr>) patch lr integrand c ng xyz wg iel X d AB of
           None \<Rightarrow> (False, AB)
         | Some R \<Rightarrow> l2Elements (cb\<lparr>Jacobian := J\<rparr>) patch lr integrand c ng xyz wg els (iel + 1) R)
      = fst (case l2ElementBody cb patch lr integrand c ng xyz wg iel X d AB' of
           None \<Rightarrow> (False, AB')
         | Some R \<Rightarrow> l2Elements cb patch lr integrand c ng xyz wg els (iel + 1) R)" for X d
  proof (cases "l2ElementBody cb patch lr integrand c ng xyz wg iel X d AB'")
    case None
    then have "l2ElementBody (cb\<lparr>Jacobian := J\<rparr>) patch lr integrand c ng xyz wg iel X d AB = None"
      by (simp add: l2ElementBody_fails_iff [where AB' = AB'])
    then show ?thesis
      using None by simp
  next
    case (Some R')
    then have "l2ElementBody (cb\<lparr>Jacobian := J\<rparr>) patch lr integrand c ng xyz wg iel X d AB \<noteq> None"
      by (simp add: l2ElementBody_fails_iff [where AB' = AB'])
    then obtain R where
      "l2ElementBody (cb\<lparr>Jacobian := J\<rparr>) patch lr integrand c ng xyz wg iel X d AB = Some R"
      by blast
    then show ?thesis
      using Some Cons.IH [of "iel + 1" R R'] by simp
  qed
  show ?case
  proof (cases c)
    case True
    then have cT: "c = True" by simp
    show ?thesis
    proof (cases "getElementCoordinates patch iel")
      case None
      then show ?thesis
        unfolding cT by simp
    next
      case (Some Xnod)
      then show ?thesis
        using body [of Xnod "0.125 * getParametricVolume patch iel", unfolded cT]
        unfolding cT by (simp add: Let_def)
    qed
  next
    case False
    then have cF: "c = False" by simp
    show ?thesis
      using body [of "[]" 0, unfolded cF] unfolding cF by simp
  qed
qed

lemma assembleL2matrices_status:
  "fst (assembleL2matrices (cb\<lparr>Jacobian := J\<rparr>) patch lr integrand c AB)
   = fst (assembleL2matrices cb patch lr integrand c AB)"
  by (auto simp: assembleL2matrices_def Let_def l2Elements_status split: option.splits)

text \<open>
  C7: in the integration loop of the continuous L2-projection, a Gauss point whose
  Jacobian-scaled weight \<open>dJw\<close> is exactly zero leaves the matrix \<open>A\<close> and the right-hand
  side \<open>B\<close> as they are; the loop goes on with the next point from the entries accumulated
  so far, so the result is the one of the loop without that point. Whether the assembly
  succeeds does not depend on the Jacobian: a zero weight never makes it fail.
\<close>

theorem zero_weight_point_skipped:
  assumes "l2_dJw cb lr True iel Xnod dA wg gpar pt = 0"
  shows "l2GaussPoint cb patch lr True iel Xnod dA wg gpar sField pt AB = AB
    \<and> l2Integration cb patch lr True iel Xnod dA wg gpar sField (ps @ pt # qs) AB
        = l2Integration cb patch lr True iel Xnod dA wg gpar sField qs
            (l2Integration cb patch lr True iel Xnod dA wg gpar sField ps AB)
    \<and> l2Integration cb patch lr True iel Xnod dA wg gpar sField (ps @ pt # qs) AB
        = l2Integration cb patch lr True iel Xnod dA wg gpar sField (ps @ qs) AB
    \<and> fst (assembleL2matrices (cb\<lparr>Jacobian := J\<rparr>) patch lr integrand contin AB)
        = fst (assembleL2matrices cb patch lr integrand contin AB)"
proof -
  have skip: "l2GaussPoint cb patch lr True iel Xnod dA wg gpar sField pt X = X" for X
    by (rule l2GaussPoint_skip [OF assms])
  have "l2Integration cb patch lr True iel Xnod dA wg gpar sField (pt # qs) X
          = l2Integration cb patch lr True iel Xnod dA wg gpar sField qs X" for X
    by (simp add: l2Integration_def skip)
  then show ?thesis
    by (simp add: l2Integration_append skip assembleL2matrices_status)
qed

theorem zero_weight_point_skipped_witness:
  "l2_dJw all_singular trilinear True 1 [] 1 [2] ([0.5], [0.5], [0.5]) (0, 0, 0, 0) = 0
   \<and> l2GaussPoint all_singular unit_patch trilinear True 1 [] 1 [2] ([0.5], [0.5], [0.5])
         unit_field (0, 0, 0, 0) ((\<lambda>_. 0), (\<lambda>_. 0)) = ((\<lambda>_. 0), (\<lambda>_. 0))
   \<and> l2Integration all_singular unit_patch trilinear True 1 [] 1 [2] ([0.5], [0.5], [0.5])
         unit_field ([] @ (0, 0, 0, 0) # []) ((\<lambda>_. 0), (\<lambda>_. 0)) = ((\<lambda>_. 0), (\<lambda>_. 0))"
proof -
  have z: "l2_dJw all_singular trilinear True 1 [] 1 [2] ([0.5], [0.5], [0.5]) (0, 0, 0, 0) = 0"
    by (simp add: l2_dJw_def all_singular_def)
  have e: "l2Integration all_singular unit_patch trilinear True 1 [] 1 [2] ([0.5], [0.5], [0.5])
         unit_field [] ((\<lambda>_. 0), (\<lambda>_. 0)) = ((\<lambda>_. 0), (\<lambda>_. 0))"
    by (simp add: l2Integration_def)
  show ?thesis
    using zero_weight_point_skipped [OF z, of unit_patch unit_field "((\<lambda>_. 0), (\<lambda>_. 0))" "[]" "[]"]
      z e
    by simp
qed

lemma scLoop_fails:
  assumes "i < length bs"
    and "scFunctionSolve cb patch lr integrand ng xyz n nCmp nPol gpar (bs ! i) (ip + i) = None"
  shows "scLoop cb patch lr integrand ng xyz n nCmp nPol gpar bs ip sv = None"
  using assms
proof (induction bs arbitrary: i ip sv)
  case Nil
  then show ?case by simp
next
  case (Cons b bs)
  show ?case
  proof (cases i)
    case 0
    then show ?thesis using Cons.prems by simp
  next
    case (Suc k)
    then have "k < length bs"
      and "scFunctionSolve cb patch lr integrand ng xyz n nCmp nPol gpar (bs ! k) ((ip + 1) + k) = None"
      using Cons.prems by simp_all
    then have "scLoop cb patch lr integrand ng xyz n nCmp nPol gpar bs (ip + 1) sv' = None" for sv'
      by (rule Cons.IH)
    then show ?thesis
      by (simp split: option.splits)
  qed
qed

lemma scElements_succeeds:
  assumes "\<forall>x. evalSolution patch integrand x \<noteq> None"
  shows "\<exists>AB'. scElements patch lr integrand ng xyz G n nCmp nPol els AB = Some AB'"
proof (induction els arbitrary: AB)
  case Nil
  show ?case by simp
next
  case (Cons el els)
  obtain ng1 ng2 ng3 where ng: "ng = (ng1, ng2, ng3)" by (cases ng) auto
  obtain xg yg zg where xyz: "xyz = (xg, yg, zg)" by (cases xyz) auto
  let ?gaussPt = "(getGaussPointParameters patch 0 ng1 (int (el_id el) + 1) xg,
                   getGaussPointParameters patch 1 ng2 (int (el_id el) + 1) yg,
                   getGaussPointParameters patch 2 ng3 (int (el_id el) + 1) zg)"
  obtain sField where "evalSolution patch integrand (expandTensorGrid ?gaussPt) = Some sField"
    using assms by (meson not_None_eq)
  then show ?case
    using Cons.IH by (simp add: ng xyz Let_def del: One_nat_def)
qed

lemma scFunctionSystem_succeeds:
  assumes "\<forall>x. evalSolution patch integrand x \<noteq> None"
  shows "\<exists>Am Bm. scFunctionSystem patch lr integrand ng xyz n nCmp nPol gpar b ip = Some (Am, Bm)"
proof -
  obtain gp0 gp1 gp2 where gp: "gpar = (gp0, gp1, gp2)"
    by (cases gpar) auto
  have "\<exists>AB'. scElements patch lr integrand ng xyz
          (point lr (gp0 ! ip) (gp1 ! ip) (gp2 ! ip)) n nCmp nPol (fitElements b)
          ((\<lambda>_. 0), (\<lambda>_. 0)) = Some AB'"
    by (rule scElements_succeeds [OF assms])
  then obtain AB' where "scElements patch lr integrand ng xyz
          (point lr (gp0 ! ip) (gp1 ! ip) (gp2 ! ip)) n nCmp nPol (fitElements b)
          ((\<lambda>_. 0), (\<lambda>_. 0)) = Some AB'"
    by blast
  then have "scFunctionSystem patch lr integrand ng xyz n nCmp nPol gpar b ip
      = Some (fst AB', snd AB')"
    by (simp add: scFunctionSystem_def scLocalSystem_def gp Let_def)
  then show ?thesis
    by blast
qed

lemma scLoop_succeeds:
  assumes "\<forall>x. evalSolution patch integrand x \<noteq> None"
    and "\<forall>k Am Bm. dense_solve cb k Am Bm \<noteq> None"
  shows "\<exists>sv'. scLoop cb patch lr integrand ng xyz n nCmp nPol gpar bs ip sv = Some sv'"
proof (induction bs arbitrary: ip sv)
  case Nil
  show ?case by simp
next
  case (Cons b bs)
  obtain Am Bm where sys:
    "scFunctionSystem patch lr integrand ng xyz n nCmp nPol gpar b ip = Some (Am, Bm)"
    using scFunctionSystem_succeeds [OF assms(1)] by blast
  have "dense_solve cb nPol Am Bm \<noteq> None"
    using assms(2) by simp
  then obtain X where "dense_solve cb nPol Am Bm = Some X"
    by blast
  then have "scFunctionSolve cb patch lr integrand ng xyz n nCmp nPol gpar b ip = Some X"
    using sys by (simp add: scFunctionSolve_def)
  then show ?case
    using Cons.IH by simp
qed

text \<open>
  C6: a failing solve makes the whole projection fail with a null pointer. If the local
  system of some basis function is assembled and its solve fails, \<open>scRecovery\<close> returns
  a null pointer; if the solve of the global interpolation system fails,
  \<open>regularInterpolation\<close> returns a null pointer, and so do \<open>scRecovery\<close> (after all local
  systems were solved) and \<open>projectSolution\<close>, which end with that interpolation.
\<close>

theorem singular_systems_fail:
  "(sc_xyz cb lr integrand = Some xyz
      \<and> ip < length (getAllBasisfunctions lr)
      \<and> scFunctionSystem patch lr integrand (sc_ng lr integrand) xyz (sc_n lr integrand)
            (getNoFields integrand) (sc_nPol lr integrand) (sc_gpar lr)
            (getAllBasisfunctions lr ! ip) ip = Some (Am, Bm)
      \<and> dense_solve cb (sc_nPol lr integrand) Am Bm = None
    \<longrightarrow> scRecovery cb patch lr integrand = None)
   \<and> (sparse_solve cb (nBasisFunctions lr) (interpolationMatrix lr upar vpar wpar)
          (interpolationRHS points) = None
    \<longrightarrow> regularInterpolation cb lr upar vpar wpar points = None)
   \<and> (sc_xyz cb lr integrand = Some xyz
      \<and> sc_gpar lr = (gp0, gp1, gp2)
      \<and> scLoop cb patch lr integrand (sc_ng lr integrand) xyz (sc_n lr integrand)
            (getNoFields integrand) (sc_nPol lr integrand) (gp0, gp1, gp2)
            (getAllBasisfunctions lr) 0
            \<lparr>rows = getNoFields integrand, cols = length gp0, entry = (\<lambda>_. 0)\<rparr> = Some sValues
      \<and> sparse_solve cb (nBasisFunctions lr) (interpolationMatrix lr gp0 gp1 gp2)
            (interpolationRHS sValues) = None
    \<longrightarrow> scRecovery cb patch lr integrand = None)
   \<and> (sc_gpar lr = (gp0, gp1, gp2)
      \<and> evalSolution patch integrand (gp0, gp1, gp2) = Some pValues
      \<and> sparse_solve cb (nBasisFunctions lr) (interpolationMatrix lr gp0 gp1 gp2)
            (interpolationRHS pValues) = None
    \<longrightarrow> projectSolution cb patch lr integrand = None)"
proof -
  have glob: "regularInterpolation cb lr u v w pts = None"
    if "sparse_solve cb (nBasisFunctions lr) (interpolationMatrix lr u v w)
          (interpolationRHS pts) = None" for u v w pts
    using that by (simp add: regularInterpolation_def Let_def)
  have loc: "scRecovery cb patch lr integrand = None"
    if x: "sc_xyz cb lr integrand = Some xyz"
      and i: "ip < length (getAllBasisfunctions lr)"
      and s: "scFunctionSystem patch lr integrand (sc_ng lr integrand) xyz (sc_n lr integrand)
            (getNoFields integrand) (sc_nPol lr integrand) (sc_gpar lr)
            (getAllBasisfunctions lr ! ip) ip = Some (Am, Bm)"
      and d: "dense_solve cb (sc_nPol lr integrand) Am Bm = None"
  proof -
    have "scFunctionSolve cb patch lr integrand (sc_ng lr integrand) xyz (sc_n lr integrand)
            (getNoFields integrand) (sc_nPol lr integrand) (sc_gpar lr)
            (getAllBasisfunctions lr ! ip) (0 + ip) = None"
      using s d by (simp add: scFunctionSolve_def)
    then have "scLoop cb patch lr integrand (sc_ng lr integrand) xyz (sc_n lr integrand)
            (getNoFields integrand) (sc_nPol lr integrand) (sc_gpar lr)
            (getAllBasisfunctions lr) 0 sv = None" for sv
      by (rule scLoop_fails [OF i])
    moreover obtain q0 q1 q2 where "sc_gpar lr = (q0, q1, q2)"
      by (cases "sc_gpar lr") auto
    ultimately show ?thesis
      using x by (simp add: scRecovery_def Let_def)
  qed
  have sc: "scRecovery cb patch lr integrand = None"
    if "sc_xyz cb lr integrand = Some xyz" "sc_gpar lr = (gp0, gp1, gp2)"
      "scLoop cb patch lr integrand (sc_ng lr integrand) xyz (sc_n lr integrand)
            (getNoFields integrand) (sc_nPol lr integrand) (gp0, gp1, gp2)
            (getAllBasisfunctions lr) 0
            \<lparr>rows = getNoFields integrand, cols = length gp0, entry = (\<lambda>_. 0)\<rparr> = Some sValues"
      "sparse_solve cb (nBasisFunctions lr) (interpolationMatrix lr gp0 gp1 gp2)
            (interpolationRHS sValues) = None"
    using that glob [of gp0 gp1 gp2 sValues]
    by (simp add: scRecovery_def Let_def)
  have pr: "projectSolution cb patch lr integrand = None"
    if "sc_gpar lr = (gp0, gp1, gp2)"
      "evalSolution patch integrand (gp0, gp1, gp2) = Some pValues"
      "sparse_solve cb (nBasisFunctions lr) (interpolationMatrix lr gp0 gp1 gp2)
            (interpolationRHS pValues) = None"
    using that glob [of gp0 gp1 gp2 pValues]
    by (simp add: projectSolution_def Let_def sc_gpar_def)
  show ?thesis
    using glob loc sc pr by blast
qed

lemma sc_xyz_example: "sc_xyz all_singular trilinear stress = Some ([0], [0], [0])"
  and sc_xyz_example2: "sc_xyz global_singular trilinear stress = Some ([0], [0], [0])"
  by (simp_all add: sc_xyz_def sc_ng_def all_singular_def global_singular_def trilinear_def
      stress_def quadrature_def)

lemma unit_patch_evaluates: "\<forall>x. evalSolution unit_patch stress x \<noteq> None"
  by (simp add: unit_patch_def)

lemma global_singular_solves: "\<forall>k Am Bm. dense_solve global_singular k Am Bm \<noteq> None"
  by (simp add: global_singular_def)

theorem singular_systems_fail_witness:
  "scRecovery all_singular unit_patch trilinear stress = None
   \<and> regularInterpolation all_singular trilinear [0] [0] [0] unit_field = None
   \<and> scRecovery global_singular unit_patch trilinear stress = None
   \<and> projectSolution global_singular unit_patch trilinear stress = None"
proof -
  obtain gp0 gp1 gp2 where gp: "sc_gpar trilinear = (gp0, gp1, gp2)"
    by (cases "sc_gpar trilinear") auto
  have i: "0 < length (getAllBasisfunctions trilinear)"
    by (simp add: trilinear_def)
  obtain Am Bm where s: "scFunctionSystem unit_patch trilinear stress (sc_ng trilinear stress)
      ([0], [0], [0]) (sc_n trilinear stress) (getNoFields stress) (sc_nPol trilinear stress)
      (sc_gpar trilinear) (getAllBasisfunctions trilinear ! 0) 0 = Some (Am, Bm)"
    using scFunctionSystem_succeeds [OF unit_patch_evaluates] by blast
  have d: "dense_solve all_singular (sc_nPol trilinear stress) Am Bm = None"
    by (simp add: all_singular_def)
  have g: "sparse_solve cb (nBasisFunctions trilinear) M (interpolationRHS pts) = None"
    if "cb = all_singular \<or> cb = global_singular" for cb M pts
    using that by (auto simp: all_singular_def global_singular_def)
  obtain sValues where l: "scLoop global_singular unit_patch trilinear stress
      (sc_ng trilinear stress) ([0], [0], [0]) (sc_n trilinear stress) (getNoFields stress)
      (sc_nPol trilinear stress) (gp0, gp1, gp2) (getAllBasisfunctions trilinear) 0
      \<lparr>rows = getNoFields stress, cols = length gp0, entry = (\<lambda>_. 0)\<rparr> = Some sValues"
    using scLoop_succeeds [OF unit_patch_evaluates global_singular_solves] by blast
  have e: "evalSolution unit_patch stress (gp0, gp1, gp2) = Some unit_field"
    by (simp add: unit_patch_def)
  note t = singular_systems_fail [of all_singular trilinear stress "([0], [0], [0])" 0
      unit_patch Am Bm "[0]" "[0]" "[0]" unit_field gp0 gp1 gp2 sValues unit_field]
  note t' = singular_systems_fail [of global_singular trilinear stress "([0], [0], [0])" 0
      unit_patch Am Bm "[0]" "[0]" "[0]" unit_field gp0 gp1 gp2 sValues unit_field]
  have 1: "scRecovery all_singular unit_patch trilinear stress = None"
  proof (rule t [THEN conjunct1, THEN mp])
    show "sc_xyz all_singular trilinear stress = Some ([0], [0], [0])
      \<and> 0 < length (getAllBasisfunctions trilinear)
      \<and> scFunctionSystem unit_patch trilinear stress (sc_ng trilinear stress)
          ([0], [0], [0]) (sc_n trilinear stress) (getNoFields stress)
          (sc_nPol trilinear stress) (sc_gpar trilinear)
          (getAllBasisfunctions trilinear ! 0) 0 = Some (Am, Bm)
      \<and> dense_solve all_singular (sc_nPol trilinear stress) Am Bm = None"
      using sc_xyz_example i s d by (intro conjI)
  qed
  have 2: "regularInterpolation all_singular trilinear [0] [0] [0] unit_field = None"
    by (rule t [THEN conjunct2, THEN conjunct1, THEN mp]) (rule g, simp)
  have 3: "scRecovery global_singular unit_patch trilinear stress = None"
  proof (rule t' [THEN conjunct2, THEN conjunct2, THEN conjunct1, THEN mp])
    have "sparse_solve global_singular (nBasisFunctions trilinear)
        (interpolationMatrix trilinear gp0 gp1 gp2) (interpolationRHS sValues) = None"
      by (rule g) simp
    then show "sc_xyz global_singular trilinear stress = Some ([0], [0], [0])
      \<and> sc_gpar trilinear = (gp0, gp1, gp2)
      \<and> scLoop global_singular unit_patch trilinear stress (sc_ng trilinear stress)
          ([0], [0], [0]) (sc_n trilinear stress) (getNoFields stress)
          (sc_nPol trilinear stress) (gp0, gp1, gp2) (getAllBasisfunctions trilinear) 0
          \<lparr>rows = getNoFields stress, cols = length gp0, entry = (\<lambda>_. 0)\<rparr> = Some sValues
      \<and> sparse_solve global_singular (nBasisFunctions trilinear)
          (interpolationMatrix trilinear gp0 gp1 gp2) (interpolationRHS sValues) = None"
      using sc_xyz_example2 gp l by (intro conjI)
  qed
  have 4: "projectSolution global_singular unit_patch trilinear stress = None"
  proof (rule t' [THEN conjunct2, THEN conjunct2, THEN conjunct2, THEN mp])
    have "sparse_solve global_singular (nBasisFunctions trilinear)
        (interpolationMatrix trilinear gp0 gp1 gp2) (interpolationRHS unit_field) = None"
      by (rule g) simp
    then show "sc_gpar trilinear = (gp0, gp1, gp2)
      \<and> evalSolution unit_patch stress (gp0, gp1, gp2) = Some unit_field
      \<and> sparse_solve global_singular (nBasisFunctions trilinear)
          (interpolationMatrix trilinear gp0 gp1 gp2) (interpolationRHS unit_field) = None"
      using gp e by (intro conjI)
  qed
  show ?thesis
    using 1 2 3 4 by simp
qed

end
